theory Spec2Isabelle
  imports Main "HOL-Library.Multiset"
begin

section \<open>The dataset\<close>

text \<open>
  \<^verbatim>\<open>visualization_app.py\<close> loads one table, \<^verbatim>\<open>df = pd.read_csv(...)\<close>, and every
  function reads it. A row of the table is a record with the seven columns the code
  names; the table is the list of its rows, in file order. The two bid columns are only
  copied into charts, so their type is left open (\<open>'v\<close>). Every cell is present (no
  missing values), as in the data model of the specification.
\<close>

record 'v bid_record =
  Delivery_Date :: string
  Resource_Name :: string
  Resource_Type :: string
  QSE :: string
  Hour_Ending :: int
  Supply_Bid_Value :: 'v
  Price_Bid_Value :: 'v

type_synonym 'v dataframe = "'v bid_record list"

text \<open>
  A dropdown's value is a string, or \<^verbatim>\<open>None\<close> while nothing is selected. pandas
  evaluates \<^verbatim>\<open>column == None\<close> to False on every row, and so does the comparison
  \<open>Some cell = selection\<close> used for the boolean masks below.
\<close>

type_synonym selection = "string option"

section \<open>Library operations the code calls\<close>

subsection \<open>pandas\<close>

text \<open>
  \<^verbatim>\<open>Series.unique()\<close>: the distinct values in order of first appearance. (HOL's
  \<open>remdups\<close> keeps the last occurrence of each value instead.)
\<close>

fun unique :: "'a list \<Rightarrow> 'a list" where
  "unique [] = []"
| "unique (a # as) = a # unique (filter (\<lambda>b. b \<noteq> a) as)"

text \<open>
  \<^verbatim>\<open>DataFrame.groupby('Hour Ending')\<close>, iterated: one pair (key, rows with that key)
  per distinct key, keys ascending, the rows of a group in their order in the frame.
\<close>

definition groupby_Hour_Ending :: "'v dataframe \<Rightarrow> (int \<times> 'v dataframe) list" where
  "groupby_Hour_Ending frame =
     map (\<lambda>hour. (hour, filter (\<lambda>r. Hour_Ending r = hour) frame))
         (sort (remdups (map Hour_Ending frame)))"

subsection \<open>Python strings\<close>

definition digit_char :: "nat \<Rightarrow> char" where
  "digit_char k = ''0123456789'' ! k"

function str_nat :: "nat \<Rightarrow> string" where
  "str_nat n = (if n < 10 then [digit_char n] else str_nat (n div 10) @ [digit_char (n mod 10)])"
  by pat_completeness auto
termination
  by (relation "measure id") auto

declare str_nat.simps [simp del]

text \<open>\<^verbatim>\<open>str(i)\<close>, as an f-string formats an integer.\<close>

definition str_int :: "int \<Rightarrow> string" where
  "str_int i = (if i < 0 then CHR ''-'' # str_nat (nat (- i)) else str_nat (nat i))"

text \<open>An f-string formats \<^verbatim>\<open>None\<close> as the word None.\<close>

fun fmt :: "selection \<Rightarrow> string" where
  "fmt None = ''None''"
| "fmt (Some s) = s"

text \<open>\<^verbatim>\<open>s.split(c)\<close> for a one-character separator: never the empty list.\<close>

fun str_split :: "char \<Rightarrow> string \<Rightarrow> string list" where
  "str_split c [] = [[]]"
| "str_split c (a # s) =
     (if a = c then [] # str_split c s
      else (case str_split c s of [] \<Rightarrow> [[a]] | w # ws \<Rightarrow> (a # w) # ws))"

subsection \<open>plotly\<close>

datatype error = OutOfRange | IndexError

record 'v trace =
  trace_x :: "'v list"
  trace_y :: "'v list"
  trace_mode :: string
  trace_marker_size :: "int option"
  trace_name :: string
  trace_cell :: "(int \<times> int) option"

datatype axis = XAxis | YAxis

record 'v figure =
  fig_data :: "'v trace list"
  fig_grid :: "(int \<times> int) option"
  subplot_titles :: "string list"
  axis_titles :: "(axis \<times> (int \<times> int) option \<times> string) list"
  title_text :: "string option"
  height :: "int option"
  width :: "int option"
  showlegend :: "bool option"

text \<open>\<^verbatim>\<open>go.Figure()\<close>: the empty chart, no data series and a default layout.\<close>

definition go_Figure :: "'v figure" where
  "go_Figure = \<lparr>fig_data = [], fig_grid = None, subplot_titles = [], axis_titles = [],
     title_text = None, height = None, width = None, showlegend = None\<rparr>"

definition make_subplots :: "int \<Rightarrow> int \<Rightarrow> string list \<Rightarrow> 'v figure" where
  "make_subplots rows cols titles =
     go_Figure\<lparr>fig_grid := Some (rows, cols), subplot_titles := titles\<rparr>"

definition Scatter :: "'v list \<Rightarrow> 'v list \<Rightarrow> string \<Rightarrow> int option \<Rightarrow> string \<Rightarrow> 'v trace" where
  "Scatter xs ys m sz nm =
     \<lparr>trace_x = xs, trace_y = ys, trace_mode = m, trace_marker_size = sz,
      trace_name = nm, trace_cell = None\<rparr>"

text \<open>\<^verbatim>\<open>fig.add_trace(t)\<close> appends a series to the chart.\<close>

definition add_trace :: "'v figure \<Rightarrow> 'v trace \<Rightarrow> 'v figure" where
  "add_trace fig t = fig\<lparr>fig_data := fig_data fig @ [t]\<rparr>"

text \<open>
  \<^verbatim>\<open>fig.add_trace(t, row=r, col=c)\<close> puts the series into cell (r, c) of the subplot
  grid, and raises when the chart has no grid or the cell is not one of its cells
  (cells are numbered from 1).
\<close>

definition add_trace_at :: "'v figure \<Rightarrow> 'v trace \<Rightarrow> int \<Rightarrow> int \<Rightarrow> error + 'v figure" where
  "add_trace_at fig t r c =
     (case fig_grid fig of
        None \<Rightarrow> Inl OutOfRange
      | Some (rows, cols) \<Rightarrow>
          if r \<le> 0 \<or> c \<le> 0 \<or> rows < r \<or> cols < c then Inl OutOfRange
          else Inr (fig\<lparr>fig_data := fig_data fig @ [t\<lparr>trace_cell := Some (r, c)\<rparr>]\<rparr>))"


section \<open>The chart builders\<close>

text \<open>The loop body of \<^verbatim>\<open>create_graph1\<close> computes the cell of an hour.\<close>

definition hour_row :: "int \<Rightarrow> int" where
  "hour_row hour = (hour - 1) div 6 + 1"

definition hour_col :: "int \<Rightarrow> int" where
  "hour_col hour = (hour - 1) mod 6 + 1"

definition hour_label :: "int \<Rightarrow> string" where
  "hour_label hour = ''Hour '' @ str_int hour"

text \<open>
  The loop \<^verbatim>\<open>for hour, hour_df in filtered_df.groupby('Hour Ending')\<close>: it stops at
  the first \<^verbatim>\<open>add_trace\<close> that raises.
\<close>

fun plot_hours :: "'v figure \<Rightarrow> (int \<times> 'v dataframe) list \<Rightarrow> error + 'v figure" where
  "plot_hours fig [] = Inr fig"
| "plot_hours fig ((hour, hour_df) # groups) =
     (case add_trace_at fig
             (Scatter (map Supply_Bid_Value hour_df) (map Price_Bid_Value hour_df)
                ''markers'' (Some 8) (hour_label hour))
             (hour_row hour) (hour_col hour) of
        Inl e \<Rightarrow> Inl e
      | Inr fig' \<Rightarrow> plot_hours fig' groups)"

definition create_graph1 ::
  "'v dataframe \<Rightarrow> selection \<Rightarrow> selection \<Rightarrow> selection \<Rightarrow> selection \<Rightarrow> error + 'v figure" where
  "create_graph1 df selected_date selected_unit selected_generator selected_resource_type =
     (if selected_date = None \<or> selected_unit = None \<or> selected_generator = None
         \<or> selected_resource_type = None
      then Inr go_Figure
      else
        let filtered_df = filter (\<lambda>r. Some (Delivery_Date r) = selected_date
                                   \<and> Some (Resource_Name r) = selected_unit
                                   \<and> Some (QSE r) = selected_generator
                                   \<and> Some (Resource_Type r) = selected_resource_type) df;
            fig = make_subplots 4 6 (map (\<lambda>i. hour_label (int i + 1)) [0..<24])
        in case plot_hours fig (groupby_Hour_Ending filtered_df) of
             Inl e \<Rightarrow> Inl e
           | Inr fig' \<Rightarrow>
               Inr (fig'\<lparr>axis_titles := axis_titles fig'
                            @ [(XAxis, Some (4, 1), ''Supply Bid Value''),
                               (YAxis, Some (1, 1), ''Price Bid Value'')],
                         height := Some 800, width := Some 1200,
                         showlegend := Some False,
                         title_text := Some (''Supply vs Price for '' @ fmt selected_date
                            @ '', '' @ fmt selected_unit @ '', '' @ fmt selected_generator
                            @ '', '' @ fmt selected_resource_type)\<rparr>))"

definition create_graph2 ::
  "'v dataframe \<Rightarrow> selection \<Rightarrow> selection \<Rightarrow> selection \<Rightarrow> selection \<Rightarrow> 'v figure" where
  "create_graph2 df selected_date selected_unit selected_generator selected_resource_type =
     (if selected_date = None \<or> selected_unit = None \<or> selected_generator = None
         \<or> selected_resource_type = None
      then go_Figure
      else
        let filtered_df = filter (\<lambda>r. Some (Delivery_Date r) = selected_date
                                   \<and> Some (Resource_Name r) = selected_unit
                                   \<and> Some (QSE r) = selected_generator
                                   \<and> Some (Resource_Type r) = selected_resource_type) df;
            fig = fold (\<lambda>hour fig.
                     let hour_df = filter (\<lambda>r. Hour_Ending r = hour) filtered_df
                     in add_trace fig
                          (Scatter (map Supply_Bid_Value hour_df) (map Price_Bid_Value hour_df)
                             ''markers+lines'' None (hour_label hour)))
                   (unique (map Hour_Ending filtered_df)) go_Figure
        in fig\<lparr>title_text := Some (''Supply and Price Bids for '' @ fmt selected_resource_type
                    @ '', '' @ fmt selected_generator @ '', '' @ fmt selected_unit
                    @ '', '' @ fmt selected_date),
               axis_titles := axis_titles fig
                    @ [(XAxis, None, ''Supply Bid''), (YAxis, None, ''Price Bid'')],
               showlegend := Some True\<rparr>)"

section \<open>The dependent dropdowns\<close>

record dropdown_option =
  opt_label :: string
  opt_value :: string

definition update_generator_dropdown :: "'v dataframe \<Rightarrow> selection \<Rightarrow> dropdown_option list" where
  "update_generator_dropdown df selected_resource_type =
     (if selected_resource_type = None then []
      else
        let filtered_df = filter (\<lambda>r. Some (Resource_Type r) = selected_resource_type) df;
            generators = unique (map QSE filtered_df)
        in map (\<lambda>gen. \<lparr>opt_label = gen, opt_value = gen\<rparr>) generators)"

definition update_unit_dropdown ::
  "'v dataframe \<Rightarrow> selection \<Rightarrow> selection \<Rightarrow> dropdown_option list" where
  "update_unit_dropdown df selected_generator selected_resource_type =
     (if selected_generator = None then []
      else
        let filtered_df = filter (\<lambda>r. Some (QSE r) = selected_generator
                                   \<and> Some (Resource_Type r) = selected_resource_type) df;
            units = unique (map Resource_Name filtered_df)
        in map (\<lambda>unit. \<lparr>opt_label = unit, opt_value = unit\<rparr>) units)"

definition update_date_dropdown ::
  "'v dataframe \<Rightarrow> selection \<Rightarrow> selection \<Rightarrow> selection \<Rightarrow> dropdown_option list" where
  "update_date_dropdown df selected_unit selected_generator selected_resource_type =
     (if selected_unit = None then []
      else
        let filtered_df = filter (\<lambda>r. Some (Resource_Name r) = selected_unit
                                   \<and> Some (QSE r) = selected_generator
                                   \<and> Some (Resource_Type r) = selected_resource_type) df;
            dates = unique (map Delivery_Date filtered_df)
        in map (\<lambda>date. \<lparr>opt_label = date, opt_value = date\<rparr>) dates)"

section \<open>The render dispatcher\<close>

text \<open>
  \<^verbatim>\<open>display_graph\<close> reads \<^verbatim>\<open>dash.callback_context.triggered\<close>, which is not one of
  its arguments: the list of the inputs whose change caused this call, each with its
  \<^verbatim>\<open>prop_id\<close> such as \<^verbatim>\<open>btn-graph1.n_clicks\<close>; it is empty (false) when nothing
  has triggered yet. Here it is the parameter \<open>triggered\<close>.
\<close>

record triggered_input =
  prop_id :: string

definition display_graph ::
  "'v dataframe \<Rightarrow> triggered_input list \<Rightarrow> int \<Rightarrow> int
     \<Rightarrow> selection \<Rightarrow> selection \<Rightarrow> selection \<Rightarrow> selection \<Rightarrow> error + 'v figure" where
  "display_graph df triggered btn1 btn2
       selected_date selected_unit selected_generator selected_resource_type =
     (case triggered of
        [] \<Rightarrow> Inr go_Figure
      | first # _ \<Rightarrow>
          (case str_split CHR ''.'' (prop_id first) of
             [] \<Rightarrow> Inl IndexError
           | button_id # _ \<Rightarrow>
               if button_id = ''btn-graph1'' \<and> btn1 > 0
               then create_graph1 df selected_date selected_unit selected_generator
                      selected_resource_type
               else if button_id = ''btn-graph2'' \<and> btn2 > 0
               then Inr (create_graph2 df selected_date selected_unit selected_generator
                      selected_resource_type)
               else Inr go_Figure))"

section \<open>The callbacks on a heap of objects\<close>

text \<open>
  The functions above take the table as a value and return a chart as a value. The
  module works on objects: the table \<^verbatim>\<open>df\<close> is one object, shared by all callbacks,
  and pandas and plotly create and change objects. This section writes the same
  functions over an explicit heap, so that changing an object in place, as
  \<^verbatim>\<open>add_trace\<close> does, is a step of the model.
\<close>

text \<open>
  The objects the callbacks work on: a table (a \<^verbatim>\<open>DataFrame\<close>) or a chart (a
  \<^verbatim>\<open>Figure\<close>). The heap lists the objects allocated so far; the address of an
  object is its position. A name such as \<^verbatim>\<open>df\<close>, \<^verbatim>\<open>filtered_df\<close> or \<^verbatim>\<open>fig\<close> holds
  an address.
\<close>

datatype 'v obj = Frame "'v dataframe" | Fig "'v figure"

type_synonym addr = nat

type_synonym 'v heap = "'v obj list"

text \<open>
  A statement returns a value or raises, and leaves a heap behind. \<open>Dangling\<close> is the
  outcome of reading a name that does not hold an object of the expected kind, which
  Python excludes.
\<close>

datatype fault = Raised error | Dangling

type_synonym ('v, 'a) prog = "'v heap \<Rightarrow> (fault + 'a) \<times> 'v heap"

definition lookup :: "'v heap \<Rightarrow> addr \<Rightarrow> 'v obj option" where
  "lookup h a = (if a < length h then Some (h ! a) else None)"

definition return :: "'a \<Rightarrow> ('v, 'a) prog" where
  "return x h = (Inr x, h)"

definition then_do :: "('v, 'a) prog \<Rightarrow> ('a \<Rightarrow> ('v, 'b) prog) \<Rightarrow> ('v, 'b) prog" where
  "then_do m k h = (case m h of (Inl e, h') \<Rightarrow> (Inl e, h') | (Inr x, h') \<Rightarrow> k x h')"

definition new_obj :: "'v obj \<Rightarrow> ('v, addr) prog" where
  "new_obj ob h = (Inr (length h), h @ [ob])"

definition get_frame :: "addr \<Rightarrow> ('v, 'v dataframe) prog" where
  "get_frame a h = (case lookup h a of Some (Frame rows) \<Rightarrow> (Inr rows, h) | _ \<Rightarrow> (Inl Dangling, h))"

definition get_fig :: "addr \<Rightarrow> ('v, 'v figure) prog" where
  "get_fig a h = (case lookup h a of Some (Fig f) \<Rightarrow> (Inr f, h) | _ \<Rightarrow> (Inl Dangling, h))"

definition put_fig :: "addr \<Rightarrow> 'v figure \<Rightarrow> ('v, unit) prog" where
  "put_fig a f h = (Inr (), h[a := Fig f])"

text \<open>
  \<^verbatim>\<open>df[mask]\<close> reads the table and allocates a new one with the selected rows.
  \<^verbatim>\<open>go.Figure()\<close> and \<^verbatim>\<open>make_subplots\<close> allocate a new chart.
  \<^verbatim>\<open>fig.add_trace\<close>, \<^verbatim>\<open>fig.update_xaxes\<close>, \<^verbatim>\<open>fig.update_yaxes\<close> and
  \<^verbatim>\<open>fig.update_layout\<close> change the chart in place. \<^verbatim>\<open>groupby\<close> and
  \<^verbatim>\<open>unique\<close> only read.
\<close>

definition select_rows :: "addr \<Rightarrow> ('v bid_record \<Rightarrow> bool) \<Rightarrow> ('v, addr) prog" where
  "select_rows a keep = then_do (get_frame a) (\<lambda>rows. new_obj (Frame (filter keep rows)))"

definition hp_add_trace :: "addr \<Rightarrow> 'v trace \<Rightarrow> ('v, unit) prog" where
  "hp_add_trace a t = then_do (get_fig a) (\<lambda>f. put_fig a (add_trace f t))"

definition hp_add_trace_at :: "addr \<Rightarrow> 'v trace \<Rightarrow> int \<Rightarrow> int \<Rightarrow> ('v, unit) prog" where
  "hp_add_trace_at a t r c =
     then_do (get_fig a) (\<lambda>f.
       case add_trace_at f t r c of
         Inl e \<Rightarrow> (\<lambda>h. (Inl (Raised e), h))
       | Inr f' \<Rightarrow> put_fig a f')"

definition hp_update :: "addr \<Rightarrow> ('v figure \<Rightarrow> 'v figure) \<Rightarrow> ('v, unit) prog" where
  "hp_update a change = then_do (get_fig a) (\<lambda>f. put_fig a (change f))"

text \<open>
  The six functions of the module, statement by statement. Each takes the address held
  by the global \<^verbatim>\<open>df\<close>. A chart builder returns the address of the chart it built.
\<close>

fun hp_plot_hours :: "addr \<Rightarrow> (int \<times> 'v dataframe) list \<Rightarrow> ('v, unit) prog" where
  "hp_plot_hours fig [] = return ()"
| "hp_plot_hours fig ((hour, hour_df) # groups) =
     then_do (hp_add_trace_at fig
                (Scatter (map Supply_Bid_Value hour_df) (map Price_Bid_Value hour_df)
                   ''markers'' (Some 8) (hour_label hour))
                (hour_row hour) (hour_col hour))
       (\<lambda>_. hp_plot_hours fig groups)"

fun hp_overlay_hours :: "addr \<Rightarrow> 'v dataframe \<Rightarrow> int list \<Rightarrow> ('v, unit) prog" where
  "hp_overlay_hours fig filtered_df [] = return ()"
| "hp_overlay_hours fig filtered_df (hour # hours) =
     then_do (let hour_df = filter (\<lambda>r. Hour_Ending r = hour) filtered_df
              in hp_add_trace fig
                   (Scatter (map Supply_Bid_Value hour_df) (map Price_Bid_Value hour_df)
                      ''markers+lines'' None (hour_label hour)))
       (\<lambda>_. hp_overlay_hours fig filtered_df hours)"

definition hp_create_graph1 ::
  "addr \<Rightarrow> selection \<Rightarrow> selection \<Rightarrow> selection \<Rightarrow> selection \<Rightarrow> ('v, addr) prog" where
  "hp_create_graph1 df selected_date selected_unit selected_generator selected_resource_type =
     (if selected_date = None \<or> selected_unit = None \<or> selected_generator = None
         \<or> selected_resource_type = None
      then new_obj (Fig go_Figure)
      else
        then_do (select_rows df (\<lambda>r. Some (Delivery_Date r) = selected_date
                                   \<and> Some (Resource_Name r) = selected_unit
                                   \<and> Some (QSE r) = selected_generator
                                   \<and> Some (Resource_Type r) = selected_resource_type)) (\<lambda>filtered_df.
        then_do (new_obj (Fig (make_subplots 4 6 (map (\<lambda>i. hour_label (int i + 1)) [0..<24])))) (\<lambda>fig.
        then_do (get_frame filtered_df) (\<lambda>rows.
        then_do (hp_plot_hours fig (groupby_Hour_Ending rows)) (\<lambda>_.
        then_do (hp_update fig (\<lambda>f. f\<lparr>axis_titles := axis_titles f
                            @ [(XAxis, Some (4, 1), ''Supply Bid Value'')]\<rparr>)) (\<lambda>_.
        then_do (hp_update fig (\<lambda>f. f\<lparr>axis_titles := axis_titles f
                            @ [(YAxis, Some (1, 1), ''Price Bid Value'')]\<rparr>)) (\<lambda>_.
        then_do (hp_update fig (\<lambda>f. f\<lparr>height := Some 800, width := Some 1200,
                         showlegend := Some False,
                         title_text := Some (''Supply vs Price for '' @ fmt selected_date
                            @ '', '' @ fmt selected_unit @ '', '' @ fmt selected_generator
                            @ '', '' @ fmt selected_resource_type)\<rparr>)) (\<lambda>_.
        return fig))))))))"

definition hp_create_graph2 ::
  "addr \<Rightarrow> selection \<Rightarrow> selection \<Rightarrow> selection \<Rightarrow> selection \<Rightarrow> ('v, addr) prog" where
  "hp_create_graph2 df selected_date selected_unit selected_generator selected_resource_type =
     (if selected_date = None \<or> selected_unit = None \<or> selected_generator = None
         \<or> selected_resource_type = None
      then new_obj (Fig go_Figure)
      else
        then_do (select_rows df (\<lambda>r. Some (Delivery_Date r) = selected_date
                                   \<and> Some (Resource_Name r) = selected_unit
                                   \<and> Some (QSE r) = selected_generator
                                   \<and> Some (Resource_Type r) = selected_resource_type)) (\<lambda>filtered_df.
        then_do (new_obj (Fig go_Figure)) (\<lambda>fig.
        then_do (get_frame filtered_df) (\<lambda>rows.
        then_do (hp_overlay_hours fig rows (unique (map Hour_Ending rows))) (\<lambda>_.
        then_do (hp_update fig (\<lambda>f. f\<lparr>title_text := Some (''Supply and Price Bids for ''
                    @ fmt selected_resource_type
                    @ '', '' @ fmt selected_generator @ '', '' @ fmt selected_unit
                    @ '', '' @ fmt selected_date),
               axis_titles := axis_titles f
                    @ [(XAxis, None, ''Supply Bid''), (YAxis, None, ''Price Bid'')],
               showlegend := Some True\<rparr>)) (\<lambda>_.
        return fig))))))"

definition hp_update_generator_dropdown :: "addr \<Rightarrow> selection \<Rightarrow> ('v, dropdown_option list) prog" where
  "hp_update_generator_dropdown df selected_resource_type =
     (if selected_resource_type = None then return []
      else
        then_do (select_rows df (\<lambda>r. Some (Resource_Type r) = selected_resource_type)) (\<lambda>filtered_df.
        then_do (get_frame filtered_df) (\<lambda>rows.
        return (map (\<lambda>gen. \<lparr>opt_label = gen, opt_value = gen\<rparr>) (unique (map QSE rows))))))"

definition hp_update_unit_dropdown ::
  "addr \<Rightarrow> selection \<Rightarrow> selection \<Rightarrow> ('v, dropdown_option list) prog" where
  "hp_update_unit_dropdown df selected_generator selected_resource_type =
     (if selected_generator = None then return []
      else
        then_do (select_rows df (\<lambda>r. Some (QSE r) = selected_generator
                                   \<and> Some (Resource_Type r) = selected_resource_type)) (\<lambda>filtered_df.
        then_do (get_frame filtered_df) (\<lambda>rows.
        return (map (\<lambda>unit. \<lparr>opt_label = unit, opt_value = unit\<rparr>) (unique (map Resource_Name rows))))))"

definition hp_update_date_dropdown ::
  "addr \<Rightarrow> selection \<Rightarrow> selection \<Rightarrow> selection \<Rightarrow> ('v, dropdown_option list) prog" where
  "hp_update_date_dropdown df selected_unit selected_generator selected_resource_type =
     (if selected_unit = None then return []
      else
        then_do (select_rows df (\<lambda>r. Some (Resource_Name r) = selected_unit
                                   \<and> Some (QSE r) = selected_generator
                                   \<and> Some (Resource_Type r) = selected_resource_type)) (\<lambda>filtered_df.
        then_do (get_frame filtered_df) (\<lambda>rows.
        return (map (\<lambda>date. \<lparr>opt_label = date, opt_value = date\<rparr>) (unique (map Delivery_Date rows))))))"

definition hp_display_graph ::
  "addr \<Rightarrow> triggered_input list \<Rightarrow> int \<Rightarrow> int
     \<Rightarrow> selection \<Rightarrow> selection \<Rightarrow> selection \<Rightarrow> selection \<Rightarrow> ('v, addr) prog" where
  "hp_display_graph df triggered btn1 btn2
       selected_date selected_unit selected_generator selected_resource_type =
     (case triggered of
        [] \<Rightarrow> new_obj (Fig go_Figure)
      | first # _ \<Rightarrow>
          (case str_split CHR ''.'' (prop_id first) of
             [] \<Rightarrow> (\<lambda>h. (Inl (Raised IndexError), h))
           | button_id # _ \<Rightarrow>
               if button_id = ''btn-graph1'' \<and> btn1 > 0
               then hp_create_graph1 df selected_date selected_unit selected_generator
                      selected_resource_type
               else if button_id = ''btn-graph2'' \<and> btn2 > 0
               then hp_create_graph2 df selected_date selected_unit selected_generator
                      selected_resource_type
               else new_obj (Fig go_Figure)))"

text \<open>
  What the caller sees of a chart builder's outcome: the chart at the returned address,
  or the failure. \<open>raised\<close> turns a result of the functions of the sections above into
  an outcome on the heap.
\<close>

definition chart_of :: "(fault + addr) \<times> 'v heap \<Rightarrow> fault + 'v figure" where
  "chart_of out = (case fst out of Inl e \<Rightarrow> Inl e | Inr a \<Rightarrow> fst (get_fig a (snd out)))"

definition raised :: "error + 'a \<Rightarrow> fault + 'a" where
  "raised r = (case r of Inl e \<Rightarrow> Inl (Raised e) | Inr x \<Rightarrow> Inr x)"

section \<open>Notions used to state the properties\<close>

text \<open>A record matches four selections when each of the four columns equals its selection.\<close>

definition matches_selection :: "string \<Rightarrow> string \<Rightarrow> string \<Rightarrow> string \<Rightarrow> 'v bid_record \<Rightarrow> bool" where
  "matches_selection d u g t r \<longleftrightarrow>
     Delivery_Date r = d \<and> Resource_Name r = u \<and> QSE r = g \<and> Resource_Type r = t"

text \<open>The (supply, price) pair of a record, and the pairs a chart plots, series by series.\<close>

definition bid_point :: "'v bid_record \<Rightarrow> 'v \<times> 'v" where
  "bid_point r = (Supply_Bid_Value r, Price_Bid_Value r)"

definition plotted_points :: "'v figure \<Rightarrow> ('v \<times> 'v) list" where
  "plotted_points fig = concat (map (\<lambda>t. zip (trace_x t) (trace_y t)) (fig_data fig))"

text \<open>The series the loop of \<^verbatim>\<open>create_graph1\<close> adds for one group, once it is placed.\<close>

definition grid_trace :: "int \<times> 'v dataframe \<Rightarrow> 'v trace" where
  "grid_trace g = (Scatter (map Supply_Bid_Value (snd g)) (map Price_Bid_Value (snd g))
       ''markers'' (Some 8) (hour_label (fst g)))\<lparr>trace_cell := Some (hour_row (fst g), hour_col (fst g))\<rparr>"

text \<open>
  Source order of first appearance: \<open>vs\<close> lists the values of the column \<open>col\<close>, each
  once, a value that first occurs earlier in the column before one that first occurs
  later. \<open>first_pos a col\<close> is the position of the first \<open>a\<close> in \<open>col\<close>.
\<close>

definition first_pos :: "'a \<Rightarrow> 'a list \<Rightarrow> nat" where
  "first_pos a col = length (takeWhile (\<lambda>b. b \<noteq> a) col)"

definition first_appearance_order :: "'a list \<Rightarrow> 'a list \<Rightarrow> bool" where
  "first_appearance_order col vs \<longleftrightarrow>
     distinct vs \<and> set vs = set col \<and> sorted_wrt (\<lambda>a b. first_pos a col < first_pos b col) vs"

text \<open>
  The part of a \<^verbatim>\<open>prop_id\<close> before its first dot names the control that triggered
  the callback; the most recently triggered control is the one of the first entry of
  the context, if there is one.
\<close>

definition control_id :: "triggered_input \<Rightarrow> string" where
  "control_id p = takeWhile (\<lambda>a. a \<noteq> CHR ''.'') (prop_id p)"

definition last_triggered :: "triggered_input list \<Rightarrow> string option" where
  "last_triggered ctx = (case ctx of [] \<Rightarrow> None | p # _ \<Rightarrow> Some (control_id p))"

section \<open>Example data\<close>

definition bid :: "string \<Rightarrow> string \<Rightarrow> string \<Rightarrow> string \<Rightarrow> int \<Rightarrow> int \<Rightarrow> int \<Rightarrow> int bid_record" where
  "bid d u t q h s p = \<lparr>Delivery_Date = d, Resource_Name = u, Resource_Type = t, QSE = q,
     Hour_Ending = h, Supply_Bid_Value = s, Price_Bid_Value = p\<rparr>"

text \<open>
  Five bids; the first, second and fourth are unit U1 of generator Q1 on day D1, with
  hour 7 listed before hour 1.
\<close>

definition example_df :: "int dataframe" where
  "example_df = [bid ''D1'' ''U1'' ''GAS'' ''Q1'' 7 10 20,
          bid ''D1'' ''U1'' ''GAS'' ''Q1'' 1 11 21,
          bid ''D1'' ''U2'' ''GAS'' ''Q1'' 3 12 22,
          bid ''D1'' ''U1'' ''GAS'' ''Q1'' 7 13 23,
          bid ''D2'' ''U1'' ''GAS'' ''Q2'' 24 14 24]"

text \<open>Two bids of the same unit, the second with an hour ending of 25.\<close>

definition late_df :: "int dataframe" where
  "late_df = [bid ''D1'' ''U1'' ''GAS'' ''Q1'' 1 10 20, bid ''D1'' ''U1'' ''GAS'' ''Q1'' 25 11 21]"

text \<open>The per-hour grid of unit U1, generator Q1, day D1 over \<open>example_df\<close>.\<close>

definition example_grid :: "int figure" where
  "example_grid =
     \<lparr>fig_data =
        [\<lparr>trace_x = [11], trace_y = [21], trace_mode = ''markers'',
            trace_marker_size = Some 8, trace_name = ''Hour 1'',
            trace_cell = Some (1, 1)\<rparr>,
         \<lparr>trace_x = [10, 13], trace_y = [20, 23], trace_mode = ''markers'',
            trace_marker_size = Some 8, trace_name = ''Hour 7'',
            trace_cell = Some (2, 1)\<rparr>],
        fig_grid = Some (4, 6),
        subplot_titles =
          [''Hour 1'', ''Hour 2'', ''Hour 3'', ''Hour 4'', ''Hour 5'',
           ''Hour 6'', ''Hour 7'', ''Hour 8'', ''Hour 9'', ''Hour 10'',
           ''Hour 11'', ''Hour 12'', ''Hour 13'', ''Hour 14'', ''Hour 15'',
           ''Hour 16'', ''Hour 17'', ''Hour 18'', ''Hour 19'', ''Hour 20'',
           ''Hour 21'', ''Hour 22'', ''Hour 23'', ''Hour 24''],
        axis_titles =
          [(XAxis, Some (4, 1), ''Supply Bid Value''),
           (YAxis, Some (1, 1), ''Price Bid Value'')],
        title_text = Some ''Supply vs Price for D1, U1, Q1, GAS'',
        height = Some 800, width = Some 1200, showlegend = Some False\<rparr>"

text \<open>
  Two heaps that hold \<open>example_df\<close>: alone at address 0, and at address 2 behind a
  chart and another table.
\<close>

definition example_heap :: "int heap" where
  "example_heap = [Frame example_df]"

definition example_heap2 :: "int heap" where
  "example_heap2 = [Fig go_Figure, Frame late_df, Frame example_df]"

section \<open>Facts about the library operations\<close>

subsection \<open>Distinct values in order of first appearance\<close>

lemma set_unique: "set (unique xs) = set xs"
  by (induction xs rule: unique.induct) auto

lemma distinct_unique: "distinct (unique xs)"
  by (induction xs rule: unique.induct) (auto simp: set_unique)

lemma first_pos_filter:
  "P b \<Longrightarrow> P c \<Longrightarrow> b \<in> set xs \<Longrightarrow> c \<in> set xs \<Longrightarrow>
   first_pos b (filter P xs) < first_pos c (filter P xs) \<longleftrightarrow> first_pos b xs < first_pos c xs"
  by (induction xs) (auto simp: first_pos_def)

lemma unique_first_pos: "sorted_wrt (\<lambda>b c. first_pos b xs < first_pos c xs) (unique xs)"
proof (induction xs rule: unique.induct)
  case 1
  show ?case by simp
next
  case (2 a as)
  let ?ys = "filter (\<lambda>b. b \<noteq> a) as"
  have head: "\<forall>c \<in> set (unique ?ys). first_pos a (a # as) < first_pos c (a # as)"
    by (auto simp: set_unique first_pos_def)
  have "sorted_wrt (\<lambda>b c. first_pos b (a # as) < first_pos c (a # as)) (unique ?ys)"
  proof (rule sorted_wrt_mono_rel [OF _ "2.IH"])
    fix b c assume "b \<in> set (unique ?ys)" "c \<in> set (unique ?ys)"
      and lt: "first_pos b ?ys < first_pos c ?ys"
    then have bc: "b \<noteq> a" "c \<noteq> a" "b \<in> set as" "c \<in> set as"
      by (auto simp: set_unique)
    with lt have "first_pos b as < first_pos c as"
      using first_pos_filter [of "\<lambda>b. b \<noteq> a" b c as] by simp
    with bc show "first_pos b (a # as) < first_pos c (a # as)"
      by (simp add: first_pos_def)
  qed
  with head show ?case by simp
qed

lemma first_pos_nth: "a \<in> set col \<Longrightarrow> col ! first_pos a col = a"
  by (induction col) (auto simp: first_pos_def)

lemma first_pos_inj: "inj_on (\<lambda>a. first_pos a col) (set col)"
  by (rule inj_onI) (metis first_pos_nth)

lemma first_appearance_unique:
  assumes "first_appearance_order col vs" and "first_appearance_order col ws"
  shows "vs = ws"
proof -
  let ?fp = "\<lambda>a. first_pos a col"
  have "sorted_wrt (<) (map ?fp vs)" "sorted_wrt (<) (map ?fp ws)"
    using assms by (simp_all add: first_appearance_order_def sorted_wrt_map)
  then have "sorted (map ?fp vs)" "distinct (map ?fp vs)" "sorted (map ?fp ws)" "distinct (map ?fp ws)"
    by (simp_all add: strict_sorted_iff)
  moreover have "set (map ?fp vs) = set (map ?fp ws)"
    using assms by (simp add: first_appearance_order_def)
  ultimately have "map ?fp vs = map ?fp ws"
    by (rule sorted_distinct_set_unique)
  moreover have "inj_on ?fp (set vs \<union> set ws)"
    using assms first_pos_inj [of col] by (simp add: first_appearance_order_def)
  ultimately show ?thesis
    by (simp add: inj_on_map_eq_map)
qed

lemma unique_first_appearance: "first_appearance_order col (unique col)"
  by (simp add: first_appearance_order_def distinct_unique set_unique unique_first_pos)

lemma first_appearance_iff: "first_appearance_order col vs \<longleftrightarrow> vs = unique col"
  using first_appearance_unique unique_first_appearance by blast

lemma sorted_unique:
  fixes xs :: "'a::linorder list"
  shows "sorted xs \<Longrightarrow> sorted_wrt (<) (unique xs)"
proof (induction xs rule: unique.induct)
  case 1
  show ?case by simp
next
  case (2 a as)
  then have "sorted (filter (\<lambda>b. b \<noteq> a) as)"
    by (simp add: sorted_wrt_filter)
  with "2.IH" have "sorted_wrt (<) (unique (filter (\<lambda>b. b \<noteq> a) as))" .
  moreover have "\<forall>b \<in> set (unique (filter (\<lambda>b. b \<noteq> a) as)). a < b"
    using "2.prems" by (auto simp: set_unique)
  ultimately show ?case by simp
qed

subsection \<open>Grouping rows by a key\<close>

lemma filter_filter_neq:
  "h \<noteq> k \<Longrightarrow> filter (\<lambda>r. f r = h) (filter (\<lambda>r. f r \<noteq> k) rows) = filter (\<lambda>r. f r = h) rows"
  by (induction rows) auto

lemma mset_groups:
  "distinct hs \<Longrightarrow> f ` set rows \<subseteq> set hs \<Longrightarrow>
   mset (concat (map (\<lambda>h. filter (\<lambda>r. f r = h) rows) hs)) = mset rows"
proof (induction hs arbitrary: rows)
  case Nil
  then show ?case by simp
next
  case (Cons k hs)
  define rest where "rest = filter (\<lambda>r. f r \<noteq> k) rows"
  have same: "map (\<lambda>h. filter (\<lambda>r. f r = h) rows) hs = map (\<lambda>h. filter (\<lambda>r. f r = h) rest) hs"
    unfolding rest_def using Cons.prems(1) by (auto intro!: filter_cong)
  have "f ` set rest \<subseteq> set hs"
    unfolding rest_def using Cons.prems(2) by auto
  with Cons.IH [of rest] Cons.prems(1)
  have "mset (concat (map (\<lambda>h. filter (\<lambda>r. f r = h) rest) hs)) = mset rest"
    by simp
  then have "mset (concat (map (\<lambda>h. filter (\<lambda>r. f r = h) rows) (k # hs)))
      = mset (filter (\<lambda>r. f r = k) rows) + mset rest"
    by (simp only: same list.map concat.simps mset_append)
  also have "\<dots> = mset rows"
    unfolding rest_def by (induction rows) auto
  finally show ?case .
qed

lemma zip_columns: "zip (map f rows) (map g rows) = map (\<lambda>r. (f r, g r)) rows"
  by (induction rows) simp_all

lemma points_of_groups:
  assumes "distinct hs" and "Hour_Ending ` set rows \<subseteq> set hs"
  shows "mset (concat (map (\<lambda>h. map bid_point (filter (\<lambda>r. Hour_Ending r = h) rows)) hs))
       = mset (map bid_point rows)"
proof -
  have "concat (map (\<lambda>h. map bid_point (filter (\<lambda>r. Hour_Ending r = h) rows)) hs)
      = map bid_point (concat (map (\<lambda>h. filter (\<lambda>r. Hour_Ending r = h) rows) hs))"
    by (simp add: map_concat comp_def)
  then show ?thesis
    using mset_groups [OF assms] by (simp only: mset_map)
qed

lemma groups_hours:
  "fst ` set (groupby_Hour_Ending rows) = Hour_Ending ` set rows"
  by (auto simp: groupby_Hour_Ending_def image_iff)

lemma map_fst_groupby:
  "map fst (groupby_Hour_Ending rows) = sort (remdups (map Hour_Ending rows))"
  by (simp add: groupby_Hour_Ending_def comp_def)

subsection \<open>Decimal numerals are injective\<close>

lemma of_char_digit_char: "k < 10 \<Longrightarrow> of_char (digit_char k) = (48 + k :: nat)"
proof -
  assume "k < 10"
  then have "k = 0 \<or> k = 1 \<or> k = 2 \<or> k = 3 \<or> k = 4 \<or> k = 5 \<or> k = 6 \<or> k = 7 \<or> k = 8 \<or> k = 9"
    by arith
  then show ?thesis
    by (elim disjE) (simp_all add: digit_char_def)
qed

lemma digit_char_inj: "a < 10 \<Longrightarrow> b < 10 \<Longrightarrow> digit_char a = digit_char b \<Longrightarrow> a = b"
proof -
  assume a: "a < 10" and b: "b < 10" and eq: "digit_char a = digit_char b"
  have "48 + a = (of_char (digit_char a) :: nat)"
    using a by (simp only: of_char_digit_char)
  also have "\<dots> = of_char (digit_char b)"
    by (simp only: eq)
  also have "\<dots> = 48 + b"
    using b by (simp only: of_char_digit_char)
  finally show "a = b" by simp
qed

lemma str_nat_nonempty: "str_nat n \<noteq> []"
  by (subst str_nat.simps) simp

lemma str_nat_digits: "c \<in> set (str_nat n) \<Longrightarrow> (48::nat) \<le> of_char c \<and> of_char c < (58::nat)"
proof (induction n rule: str_nat.induct)
  case (1 n)
  show ?case
  proof (cases "n < 10")
    case True
    with "1.prems" have "c = digit_char n"
      by (subst (asm) str_nat.simps) simp
    with True show ?thesis by (simp add: of_char_digit_char)
  next
    case False
    with "1.prems" have "c \<in> set (str_nat (n div 10)) \<or> c = digit_char (n mod 10)"
      by (subst (asm) str_nat.simps) auto
    with False "1.IH" show ?thesis
      by (auto simp: of_char_digit_char)
  qed
qed

lemma str_nat_inj: "str_nat n = str_nat m \<Longrightarrow> n = m"
proof (induction n arbitrary: m rule: str_nat.induct)
  case (1 n)
  show ?case
  proof (cases "n < 10")
    case n: True
    show ?thesis
    proof (cases "m < 10")
      case True
      with n "1.prems" show ?thesis
        by (simp add: str_nat.simps [of n] str_nat.simps [of m] digit_char_inj)
    next
      case False
      with n "1.prems" show ?thesis
        using str_nat_nonempty [of "m div 10"]
        by (simp add: str_nat.simps [of n] str_nat.simps [of m])
    qed
  next
    case n: False
    show ?thesis
    proof (cases "m < 10")
      case True
      with n "1.prems" show ?thesis
        using str_nat_nonempty [of "n div 10"]
        by (simp add: str_nat.simps [of n] str_nat.simps [of m])
    next
      case False
      with n "1.prems" have eq: "str_nat (n div 10) = str_nat (m div 10)"
          "digit_char (n mod 10) = digit_char (m mod 10)"
        by (simp_all add: str_nat.simps [of n] str_nat.simps [of m])
      from "1.IH" [OF n eq(1)] have "n div 10 = m div 10" .
      moreover from eq(2) have "n mod 10 = m mod 10"
        by (intro digit_char_inj) simp_all
      ultimately show ?thesis
        by (metis div_mult_mod_eq)
    qed
  qed
qed

lemma str_int_inj: "str_int i = str_int j \<Longrightarrow> i = j"
proof -
  assume eq: "str_int i = str_int j"
  have minus: "of_char CHR ''-'' = (45::nat)" by simp
  have nohead: "str_nat n \<noteq> CHR ''-'' # s" for n s
  proof
    assume "str_nat n = CHR ''-'' # s"
    then have "CHR ''-'' \<in> set (str_nat n)" by simp
    from str_nat_digits [OF this] show False by simp
  qed
  show ?thesis
  proof (cases "i < 0")
    case i: True
    show ?thesis
    proof (cases "j < 0")
      case True
      with i eq have "nat (- i) = nat (- j)"
        by (simp add: str_int_def str_nat_inj)
      with i True show ?thesis by simp
    next
      case False
      with i eq nohead [of "nat j"] show ?thesis
        by (simp add: str_int_def) metis
    qed
  next
    case i: False
    show ?thesis
    proof (cases "j < 0")
      case True
      with i eq nohead [of "nat i"] show ?thesis
        by (simp add: str_int_def)
    next
      case False
      with i eq have "nat i = nat j"
        by (simp add: str_int_def str_nat_inj)
      with i False show ?thesis by simp
    qed
  qed
qed

lemma hour_label_inj: "hour_label h = hour_label k \<Longrightarrow> h = k"
  by (simp add: hour_label_def str_int_inj)

subsection \<open>Splitting at a separator\<close>

lemma str_split_head: "\<exists>ws. str_split c s = takeWhile (\<lambda>a. a \<noteq> c) s # ws"
  by (induction s) auto

subsection \<open>Cells of the grid\<close>

lemma in_grid_iff:
  "\<not> (hour_row h \<le> 0 \<or> hour_col h \<le> 0 \<or> 4 < hour_row h \<or> 6 < hour_col h) \<longleftrightarrow> 1 \<le> h \<and> h \<le> 24"
  unfolding hour_row_def hour_col_def by presburger



lemma cell_in_grid:
  "1 \<le> h \<and> h \<le> 24 \<longleftrightarrow> 1 \<le> hour_row h \<and> hour_row h \<le> 4 \<and> 1 \<le> hour_col h \<and> hour_col h \<le> 6"
  unfolding hour_row_def hour_col_def by presburger



section \<open>What the chart builders return\<close>

text \<open>
  With four selections present, \<^verbatim>\<open>create_graph1\<close> either places one series per
  group and returns the finished grid, or stops at a group whose cell is outside the
  grid; \<^verbatim>\<open>create_graph2\<close> always returns its overlay.
\<close>

lemma fold_add_trace:
  "fold (\<lambda>h fig. add_trace fig (mk h)) hs fig = fig\<lparr>fig_data := fig_data fig @ map mk hs\<rparr>"
  by (induction hs arbitrary: fig) (simp_all add: add_trace_def)

lemma plot_hours_eq:
  "fig_grid fig = Some (4, 6) \<Longrightarrow>
   plot_hours fig groups =
     (if \<forall>g \<in> set groups. 1 \<le> fst g \<and> fst g \<le> 24
      then Inr (fig\<lparr>fig_data := fig_data fig @ map grid_trace groups\<rparr>)
      else Inl OutOfRange)"
proof (induction groups arbitrary: fig)
  case Nil
  then show ?case by simp
next
  case (Cons g groups)
  obtain hour hour_df where g: "g = (hour, hour_df)" by (cases g)
  show ?case
  proof (cases "1 \<le> hour \<and> hour \<le> 24")
    case True
    then have ok: "\<not> (hour_row hour \<le> 0 \<or> hour_col hour \<le> 0 \<or> 4 < hour_row hour \<or> 6 < hour_col hour)"
      by (simp only: in_grid_iff)
    let ?fig' = "fig\<lparr>fig_data := fig_data fig @ [grid_trace g]\<rparr>"
    have step: "add_trace_at fig (Scatter (map Supply_Bid_Value hour_df) (map Price_Bid_Value hour_df)
                ''markers'' (Some 8) (hour_label hour)) (hour_row hour) (hour_col hour) = Inr ?fig'"
      using ok Cons.prems by (simp add: add_trace_at_def grid_trace_def g)
    have "fig_grid ?fig' = Some (4, 6)"
      using Cons.prems by simp
    from Cons.IH [OF this] step True show ?thesis
      by (simp add: g)
  next
    case False
    then have "hour_row hour \<le> 0 \<or> hour_col hour \<le> 0 \<or> 4 < hour_row hour \<or> 6 < hour_col hour"
      using in_grid_iff [of hour] by blast
    then have "add_trace_at fig (Scatter (map Supply_Bid_Value hour_df) (map Price_Bid_Value hour_df)
                ''markers'' (Some 8) (hour_label hour)) (hour_row hour) (hour_col hour) = Inl OutOfRange"
      using Cons.prems by (simp add: add_trace_at_def)
    with False show ?thesis
      by (auto simp: g)
  qed
qed

lemma create_graph1_eq:
  fixes df :: "'v dataframe"
  defines "titles \<equiv> map (\<lambda>i. hour_label (int i + 1)) [0..<24]"
  shows "create_graph1 df (Some d) (Some u) (Some g) (Some t) =
     (let rows = filter (matches_selection d u g t) df in
      if \<forall>r \<in> set rows. 1 \<le> Hour_Ending r \<and> Hour_Ending r \<le> 24
      then Inr \<lparr>fig_data = map grid_trace (groupby_Hour_Ending rows), fig_grid = Some (4, 6),
             subplot_titles = titles,
             axis_titles = [(XAxis, Some (4, 1), ''Supply Bid Value''),
                            (YAxis, Some (1, 1), ''Price Bid Value'')],
             title_text = Some (''Supply vs Price for '' @ d @ '', '' @ u @ '', '' @ g @ '', '' @ t),
             height = Some 800, width = Some 1200, showlegend = Some False\<rparr>
      else Inl OutOfRange)"
proof -
  define rows where "rows = filter (matches_selection d u g t) df"
  have rows: "filter (\<lambda>r. Some (Delivery_Date r) = Some d \<and> Some (Resource_Name r) = Some u
      \<and> Some (QSE r) = Some g \<and> Some (Resource_Type r) = Some t) df = rows"
    unfolding rows_def by (rule filter_cong) (simp_all add: matches_selection_def)
  have grid: "fig_grid (make_subplots 4 6 titles :: 'v figure) = Some (4, 6)"
    by (simp add: make_subplots_def)
  have all: "(\<forall>g \<in> set (groupby_Hour_Ending rows). 1 \<le> fst g \<and> fst g \<le> 24)
      \<longleftrightarrow> (\<forall>r \<in> set rows. 1 \<le> Hour_Ending r \<and> Hour_Ending r \<le> 24)"
    using groups_hours [of rows] by (metis (no_types, lifting) image_iff)
  have ph: "plot_hours (make_subplots 4 6 titles) (groupby_Hour_Ending rows) =
      (if \<forall>r \<in> set rows. 1 \<le> Hour_Ending r \<and> Hour_Ending r \<le> 24
       then Inr ((make_subplots 4 6 titles)\<lparr>fig_data := fig_data (make_subplots 4 6 titles :: 'v figure)
                  @ map grid_trace (groupby_Hour_Ending rows)\<rparr>)
       else Inl OutOfRange)"
    by (simp only: plot_hours_eq [OF grid] all)
  show ?thesis
    unfolding create_graph1_def rows Let_def rows_def [symmetric] titles_def [symmetric] ph
    by (simp add: make_subplots_def go_Figure_def)
qed

lemma create_graph2_eq:
  fixes df :: "'v dataframe"
  shows "create_graph2 df (Some d) (Some u) (Some g) (Some t) =
     (let rows = filter (matches_selection d u g t) df in
      \<lparr>fig_data = map (\<lambda>hour. Scatter (map Supply_Bid_Value (filter (\<lambda>r. Hour_Ending r = hour) rows))
                           (map Price_Bid_Value (filter (\<lambda>r. Hour_Ending r = hour) rows))
                           ''markers+lines'' None (hour_label hour))
                   (unique (map Hour_Ending rows)),
       fig_grid = None, subplot_titles = [],
       axis_titles = [(XAxis, None, ''Supply Bid''), (YAxis, None, ''Price Bid'')],
       title_text = Some (''Supply and Price Bids for '' @ t @ '', '' @ g @ '', '' @ u @ '', '' @ d),
       height = None, width = None, showlegend = Some True\<rparr>)"
proof -
  define rows where "rows = filter (matches_selection d u g t) df"
  have rows: "filter (\<lambda>r. Some (Delivery_Date r) = Some d \<and> Some (Resource_Name r) = Some u
      \<and> Some (QSE r) = Some g \<and> Some (Resource_Type r) = Some t) df = rows"
    unfolding rows_def by (rule filter_cong) (simp_all add: matches_selection_def)
  show ?thesis
    unfolding create_graph2_def rows Let_def rows_def [symmetric]
    by (simp add: fold_add_trace go_Figure_def)
qed

lemma graph1_points:
  "plotted_points (fig\<lparr>fig_data := map grid_trace (groupby_Hour_Ending rows)\<rparr>)
     = concat (map (\<lambda>h. map bid_point (filter (\<lambda>r. Hour_Ending r = h) rows))
         (sort (remdups (map Hour_Ending rows))))"
  by (simp add: plotted_points_def groupby_Hour_Ending_def grid_trace_def Scatter_def comp_def
      zip_columns bid_point_def [abs_def])

lemma count_label:
  assumes that: "\<And>k. trace_name (mk k) = hour_label k" and "distinct hs"
  shows "length (filter (\<lambda>tr. trace_name tr = hour_label h) (map mk hs))
       = (if h \<in> set hs then 1 else 0)"
proof -
  have "filter (\<lambda>tr. trace_name tr = hour_label h) (map mk hs) = map mk (filter (\<lambda>k. k = h) hs)"
    using hour_label_inj by (auto simp: filter_map comp_def that intro!: arg_cong [where f = "map mk"] filter_cong)
  moreover have "length (filter (\<lambda>k. k = h) hs) = (if h \<in> set hs then 1 else 0)"
    using assms(2) by (induction hs) auto
  ultimately show ?thesis by simp
qed

lemma create_graph1_example: "create_graph1 example_df (Some ''D1'') (Some ''U1'') (Some ''Q1'') (Some ''GAS'') = Inr example_grid"
  by code_simp

section \<open>What the callbacks do to the heap\<close>

text \<open>
  Started on a heap that holds the table at the address of \<^verbatim>\<open>df\<close>, each function
  only appends objects to the heap and changes none that was there before, and its
  outcome is the result of the corresponding function of the table's rows.
\<close>

lemma lookup_old: "a < length h \<Longrightarrow> lookup (h @ objs) a = lookup h a"
  by (simp add: lookup_def nth_append)

lemma update_same: "a < length h \<Longrightarrow> h ! a = x \<Longrightarrow> h = h[a := x]"
  by (metis list_update_id)

lemma get_frame_at: "lookup h a = Some (Frame rows) \<Longrightarrow> get_frame a h = (Inr rows, h)"
  by (simp add: get_frame_def)

lemma get_fig_at: "a < length h \<Longrightarrow> h ! a = Fig f \<Longrightarrow> get_fig a h = (Inr f, h)"
  by (simp add: get_fig_def lookup_def)

lemma select_rows_at:
  "lookup h a = Some (Frame rows) \<Longrightarrow> select_rows a keep h = (Inr (length h), h @ [Frame (filter keep rows)])"
  by (simp add: select_rows_def then_do_def get_frame_at new_obj_def)

lemma hp_update_at:
  "a < length h \<Longrightarrow> h ! a = Fig f \<Longrightarrow> hp_update a change h = (Inr (), h[a := Fig (change f)])"
  by (simp add: hp_update_def then_do_def get_fig_at put_fig_def)

lemma hp_plot_hours_at:
  "a < length h \<Longrightarrow> h ! a = Fig f \<Longrightarrow>
   (case plot_hours f groups of
      Inr f' \<Rightarrow> hp_plot_hours a groups h = (Inr (), h[a := Fig f'])
    | Inl e \<Rightarrow> \<exists>f'. hp_plot_hours a groups h = (Inl (Raised e), h[a := Fig f']))"
proof (induction groups arbitrary: f h)
  case Nil
  then show ?case
    by (simp add: return_def update_same [symmetric])
next
  case (Cons g groups)
  obtain hour hour_df where g: "g = (hour, hour_df)" by (cases g)
  let ?t = "Scatter (map Supply_Bid_Value hour_df) (map Price_Bid_Value hour_df)
                ''markers'' (Some 8) (hour_label hour)"
  show ?case
  proof (cases "add_trace_at f ?t (hour_row hour) (hour_col hour)")
    case (Inl e)
    with Cons.prems have "hp_plot_hours a (g # groups) h = (Inl (Raised e), h[a := Fig f])"
      by (simp add: g then_do_def hp_add_trace_at_def get_fig_at update_same [symmetric])
    with Inl show ?thesis
      by (auto simp: g)
  next
    case (Inr f1)
    let ?h1 = "h[a := Fig f1]"
    from Cons.prems have h1: "a < length ?h1" "?h1 ! a = Fig f1"
      by simp_all
    from Inr Cons.prems have run: "hp_plot_hours a (g # groups) h = hp_plot_hours a groups ?h1"
      by (simp add: g then_do_def hp_add_trace_at_def get_fig_at put_fig_def)
    from Inr have pure: "plot_hours f (g # groups) = plot_hours f1 groups"
      by (simp add: g)
    from Cons.IH [OF h1] show ?thesis
      unfolding pure run by (simp only: list_update_overwrite)
  qed
qed

lemma hp_overlay_hours_at:
  "a < length h \<Longrightarrow> h ! a = Fig f \<Longrightarrow>
   hp_overlay_hours a rows hours h =
     (Inr (), h[a := Fig (fold (\<lambda>hour fig.
                     let hour_df = filter (\<lambda>r. Hour_Ending r = hour) rows
                     in add_trace fig
                          (Scatter (map Supply_Bid_Value hour_df) (map Price_Bid_Value hour_df)
                             ''markers+lines'' None (hour_label hour))) hours f)])"
proof (induction hours arbitrary: f h)
  case Nil
  then show ?case
    by (simp add: return_def update_same [symmetric])
next
  case (Cons hour hours)
  let ?f1 = "add_trace f (Scatter (map Supply_Bid_Value (filter (\<lambda>r. Hour_Ending r = hour) rows))
      (map Price_Bid_Value (filter (\<lambda>r. Hour_Ending r = hour) rows)) ''markers+lines'' None (hour_label hour))"
  let ?h1 = "h[a := Fig ?f1]"
  from Cons.prems have h1: "a < length ?h1" "?h1 ! a = Fig ?f1"
    by simp_all
  from Cons.prems have "hp_overlay_hours a rows (hour # hours) h = hp_overlay_hours a rows hours ?h1"
    by (simp add: then_do_def hp_add_trace_def get_fig_at put_fig_def Let_def)
  with Cons.IH [OF h1] show ?case
    by (simp add: Let_def)
qed

lemma chart_of_new: "chart_of (Inr (Suc (length h)), h @ [ob, Fig f]) = Inr f"
  by (simp add: chart_of_def get_fig_def lookup_def nth_append)

lemma hp_create_graph1_run:
  fixes h :: "'v heap"
  assumes "lookup h df = Some (Frame frame)"
  shows "\<exists>objs. snd (hp_create_graph1 df d u g t h) = h @ objs"
    and "chart_of (hp_create_graph1 df d u g t h) = raised (create_graph1 frame d u g t)"
proof -
  let ?run = "hp_create_graph1 df d u g t h"
  have "(\<exists>objs. snd ?run = h @ objs) \<and> chart_of ?run = raised (create_graph1 frame d u g t)"
  proof (cases "d = None \<or> u = None \<or> g = None \<or> t = None")
    case True
    then show ?thesis
      by (auto simp: hp_create_graph1_def create_graph1_def new_obj_def chart_of_def get_fig_def
          lookup_def raised_def)
  next
    case False
    then obtain d' u' g' t' where sel: "d = Some d'" "u = Some u'" "g = Some g'" "t = Some t'"
      by auto
    have present: "\<not> (d = None \<or> u = None \<or> g = None \<or> t = None)"
      using False .
    define rows where "rows = filter (\<lambda>r. Some (Delivery_Date r) = d \<and> Some (Resource_Name r) = u
        \<and> Some (QSE r) = g \<and> Some (Resource_Type r) = t) frame"
    define f0 :: "'v figure" where "f0 = make_subplots 4 6 (map (\<lambda>i. hour_label (int i + 1)) [0..<24])"
    define H where "H = h @ [Frame rows, Fig f0]"
    define a where "a = Suc (length h)"
    define finish :: "'v figure \<Rightarrow> 'v figure" where "finish = (\<lambda>f'. f'\<lparr>axis_titles := axis_titles f'
                            @ [(XAxis, Some (4, 1), ''Supply Bid Value''),
                               (YAxis, Some (1, 1), ''Price Bid Value'')],
                         height := Some 800, width := Some 1200,
                         showlegend := Some False,
                         title_text := Some (''Supply vs Price for '' @ fmt d
                            @ '', '' @ fmt u @ '', '' @ fmt g @ '', '' @ fmt t)\<rparr>)"
    have a: "a < length H" "H ! a = Fig f0"
      by (simp_all add: H_def a_def nth_append)
    have upd: "H[a := Fig f'] = h @ [Frame rows, Fig f']" for f'
      by (simp add: H_def a_def list_update_append)
    have rows_at: "lookup H (length h) = Some (Frame rows)"
      by (simp add: H_def lookup_def nth_append)
    have start: "?run = then_do (hp_plot_hours a (groupby_Hour_Ending rows)) (\<lambda>_.
        then_do (hp_update a (\<lambda>f. f\<lparr>axis_titles := axis_titles f
                            @ [(XAxis, Some (4, 1), ''Supply Bid Value'')]\<rparr>)) (\<lambda>_.
        then_do (hp_update a (\<lambda>f. f\<lparr>axis_titles := axis_titles f
                            @ [(YAxis, Some (1, 1), ''Price Bid Value'')]\<rparr>)) (\<lambda>_.
        then_do (hp_update a (\<lambda>f. f\<lparr>height := Some 800, width := Some 1200,
                         showlegend := Some False,
                         title_text := Some (''Supply vs Price for '' @ fmt d
                            @ '', '' @ fmt u @ '', '' @ fmt g @ '', '' @ fmt t)\<rparr>)) (\<lambda>_.
        return a)))) H"
      by (simp add: present hp_create_graph1_def then_do_def [of "select_rows _ _"] then_do_def [of "new_obj _"]
          then_do_def [of "get_frame _"]
          select_rows_at [OF assms] new_obj_def rows_def [symmetric] f0_def [symmetric]
          get_frame_at [OF rows_at [unfolded H_def]] H_def a_def)
    have pure: "create_graph1 frame d u g t =
        (case plot_hours f0 (groupby_Hour_Ending rows) of Inl e \<Rightarrow> Inl e | Inr f' \<Rightarrow> Inr (finish f'))"
      unfolding finish_def rows_def f0_def by (simp add: present create_graph1_def Let_def)
    show ?thesis
    proof (cases "plot_hours f0 (groupby_Hour_Ending rows)")
      case (Inl e)
      with hp_plot_hours_at [OF a, of "groupby_Hour_Ending rows"]
      obtain f' where "hp_plot_hours a (groupby_Hour_Ending rows) H = (Inl (Raised e), H[a := Fig f'])"
        by auto
      then have "?run = (Inl (Raised e), h @ [Frame rows, Fig f'])"
        by (simp add: start then_do_def upd)
      with Inl show ?thesis
        by (simp add: pure chart_of_def raised_def)
    next
      case (Inr f')
      with hp_plot_hours_at [OF a, of "groupby_Hour_Ending rows"]
      have loop: "hp_plot_hours a (groupby_Hour_Ending rows) H = (Inr (), H[a := Fig f'])"
        by simp
      have "?run = (Inr a, h @ [Frame rows, Fig (finish f')])"
        using a by (simp add: start loop then_do_def hp_update_at return_def upd [symmetric] finish_def)
      with Inr show ?thesis
        by (simp add: pure raised_def a_def chart_of_new)
    qed
  qed
  then show "\<exists>objs. snd ?run = h @ objs" and "chart_of ?run = raised (create_graph1 frame d u g t)"
    by simp_all
qed

lemma hp_create_graph2_run:
  fixes h :: "'v heap"
  assumes "lookup h df = Some (Frame frame)"
  shows "\<exists>objs. snd (hp_create_graph2 df d u g t h) = h @ objs"
    and "chart_of (hp_create_graph2 df d u g t h) = Inr (create_graph2 frame d u g t)"
proof -
  let ?run = "hp_create_graph2 df d u g t h"
  have "(\<exists>objs. snd ?run = h @ objs) \<and> chart_of ?run = Inr (create_graph2 frame d u g t)"
  proof (cases "d = None \<or> u = None \<or> g = None \<or> t = None")
    case True
    then show ?thesis
      by (auto simp: hp_create_graph2_def create_graph2_def new_obj_def chart_of_def get_fig_def
          lookup_def)
  next
    case False
    then obtain d' u' g' t' where sel: "d = Some d'" "u = Some u'" "g = Some g'" "t = Some t'"
      by auto
    have present: "\<not> (d = None \<or> u = None \<or> g = None \<or> t = None)"
      using False .
    define rows where "rows = filter (\<lambda>r. Some (Delivery_Date r) = d \<and> Some (Resource_Name r) = u
        \<and> Some (QSE r) = g \<and> Some (Resource_Type r) = t) frame"
    define H where "H = h @ [Frame rows, Fig (go_Figure :: 'v figure)]"
    define a where "a = Suc (length h)"
    have a: "a < length H" "H ! a = Fig go_Figure"
      by (simp_all add: H_def a_def nth_append)
    have upd: "H[a := Fig f'] = h @ [Frame rows, Fig f']" for f'
      by (simp add: H_def a_def list_update_append)
    have rows_at: "lookup H (length h) = Some (Frame rows)"
      by (simp add: H_def lookup_def nth_append)
    have start: "?run = then_do (hp_overlay_hours a rows (unique (map Hour_Ending rows))) (\<lambda>_.
        then_do (hp_update a (\<lambda>f. f\<lparr>title_text := Some (''Supply and Price Bids for ''
                    @ fmt t @ '', '' @ fmt g @ '', '' @ fmt u @ '', '' @ fmt d),
               axis_titles := axis_titles f
                    @ [(XAxis, None, ''Supply Bid''), (YAxis, None, ''Price Bid'')],
               showlegend := Some True\<rparr>)) (\<lambda>_.
        return a)) H"
      by (simp add: present hp_create_graph2_def then_do_def [of "select_rows _ _"] then_do_def [of "new_obj _"]
          then_do_def [of "get_frame _"]
          select_rows_at [OF assms] new_obj_def rows_def [symmetric]
          get_frame_at [OF rows_at [unfolded H_def]] H_def a_def)
    define F :: "'v figure" where "F = fold (\<lambda>hour fig.
                     let hour_df = filter (\<lambda>r. Hour_Ending r = hour) rows
                     in add_trace fig
                          (Scatter (map Supply_Bid_Value hour_df) (map Price_Bid_Value hour_df)
                             ''markers+lines'' None (hour_label hour)))
                   (unique (map Hour_Ending rows)) go_Figure"
    define finish :: "'v figure \<Rightarrow> 'v figure" where "finish = (\<lambda>f. f\<lparr>title_text := Some (''Supply and Price Bids for ''
                    @ fmt t @ '', '' @ fmt g @ '', '' @ fmt u @ '', '' @ fmt d),
               axis_titles := axis_titles f
                    @ [(XAxis, None, ''Supply Bid''), (YAxis, None, ''Price Bid'')],
               showlegend := Some True\<rparr>)"
    have pure: "create_graph2 frame d u g t = finish F"
      unfolding F_def finish_def rows_def by (simp add: present create_graph2_def Let_def)
    have loop: "hp_overlay_hours a rows (unique (map Hour_Ending rows)) H = (Inr (), H[a := Fig F])"
      using a by (simp only: hp_overlay_hours_at F_def)
    have last: "hp_update a finish (H[a := Fig F]) = (Inr (), H[a := Fig (finish F)])"
      using a by (simp add: hp_update_at)
    have "?run = (Inr a, H[a := Fig (finish F)])"
      by (simp only: start then_do_def loop last [unfolded finish_def] finish_def return_def
          prod.case sum.case)
    then have "?run = (Inr a, h @ [Frame rows, Fig (create_graph2 frame d u g t)])"
      by (simp only: upd pure)
    then show ?thesis
      by (simp add: a_def chart_of_new)
  qed
  then show "\<exists>objs. snd ?run = h @ objs" and "chart_of ?run = Inr (create_graph2 frame d u g t)"
    by simp_all
qed

lemma hp_dropdowns_run:
  fixes h :: "'v heap"
  assumes "lookup h df = Some (Frame frame)"
  shows "\<exists>objs. snd (hp_update_generator_dropdown df t h) = h @ objs"
    and "fst (hp_update_generator_dropdown df t h) = Inr (update_generator_dropdown frame t)"
    and "\<exists>objs. snd (hp_update_unit_dropdown df g t h) = h @ objs"
    and "fst (hp_update_unit_dropdown df g t h) = Inr (update_unit_dropdown frame g t)"
    and "\<exists>objs. snd (hp_update_date_dropdown df u g t h) = h @ objs"
    and "fst (hp_update_date_dropdown df u g t h) = Inr (update_date_dropdown frame u g t)"
proof -
  have got: "get_frame (length h) (h @ [Frame rows]) = (Inr rows, h @ [Frame rows])" for rows :: "'v dataframe"
    by (simp add: get_frame_def lookup_def)
  show "\<exists>objs. snd (hp_update_generator_dropdown df t h) = h @ objs"
    and "fst (hp_update_generator_dropdown df t h) = Inr (update_generator_dropdown frame t)"
    by (simp_all add: hp_update_generator_dropdown_def update_generator_dropdown_def return_def
        then_do_def select_rows_at [OF assms] got)
  show "\<exists>objs. snd (hp_update_unit_dropdown df g t h) = h @ objs"
    and "fst (hp_update_unit_dropdown df g t h) = Inr (update_unit_dropdown frame g t)"
    by (simp_all add: hp_update_unit_dropdown_def update_unit_dropdown_def return_def
        then_do_def select_rows_at [OF assms] got)
  show "\<exists>objs. snd (hp_update_date_dropdown df u g t h) = h @ objs"
    and "fst (hp_update_date_dropdown df u g t h) = Inr (update_date_dropdown frame u g t)"
    by (simp_all add: hp_update_date_dropdown_def update_date_dropdown_def return_def
        then_do_def select_rows_at [OF assms] got)
qed

lemma hp_display_graph_run:
  fixes h :: "'v heap"
  assumes "lookup h df = Some (Frame frame)"
  shows "\<exists>objs. snd (hp_display_graph df ctx btn1 btn2 d u g t h) = h @ objs"
    and "chart_of (hp_display_graph df ctx btn1 btn2 d u g t h)
           = raised (display_graph frame ctx btn1 btn2 d u g t)"
proof -
  have empty: "(\<exists>objs. snd (new_obj (Fig go_Figure) h) = h @ objs)
      \<and> chart_of (new_obj (Fig go_Figure) h) = raised (Inr go_Figure)"
    by (simp add: new_obj_def chart_of_def get_fig_def lookup_def raised_def)
  have "(\<exists>objs. snd (hp_display_graph df ctx btn1 btn2 d u g t h) = h @ objs)
      \<and> chart_of (hp_display_graph df ctx btn1 btn2 d u g t h)
           = raised (display_graph frame ctx btn1 btn2 d u g t)"
  proof (cases ctx)
    case Nil
    with empty show ?thesis
      by (simp add: hp_display_graph_def display_graph_def)
  next
    case (Cons p ps)
    obtain ws where "str_split CHR ''.'' (prop_id p) = control_id p # ws"
      unfolding control_id_def using str_split_head by blast
    with Cons empty hp_create_graph1_run [OF assms, of d u g t] hp_create_graph2_run [OF assms, of d u g t]
    show ?thesis
      by (simp add: hp_display_graph_def display_graph_def raised_def)
  qed
  then show "\<exists>objs. snd (hp_display_graph df ctx btn1 btn2 d u g t h) = h @ objs"
    and "chart_of (hp_display_graph df ctx btn1 btn2 d u g t h)
           = raised (display_graph frame ctx btn1 btn2 d u g t)"
    by simp_all
qed

lemma display_graph_context:
  "last_triggered ctx = last_triggered ctx' \<Longrightarrow>
   display_graph df ctx btn1 btn2 d u g t = display_graph df ctx' btn1 btn2 d u g t"
proof -
  have split: "display_graph df c btn1 btn2 d u g t =
      (case last_triggered c of
         None \<Rightarrow> Inr go_Figure
       | Some button_id \<Rightarrow>
           if button_id = ''btn-graph1'' \<and> btn1 > 0 then create_graph1 df d u g t
           else if button_id = ''btn-graph2'' \<and> btn2 > 0 then Inr (create_graph2 df d u g t)
           else Inr go_Figure)" for c
  proof (cases c)
    case Nil
    then show ?thesis by (simp add: display_graph_def last_triggered_def)
  next
    case (Cons p ps)
    obtain ws where "str_split CHR ''.'' (prop_id p) = control_id p # ws"
      unfolding control_id_def using str_split_head by blast
    with Cons show ?thesis by (simp add: display_graph_def last_triggered_def)
  qed
  assume "last_triggered ctx = last_triggered ctx'"
  then show ?thesis
    by (simp add: split)
qed

lemma take_extended: "\<exists>objs. H = h @ objs \<Longrightarrow> take (length h) H = h"
  by auto

section \<open>The chart builders use exactly the matching records\<close>

text \<open>
  C1: with all four selections present, both chart builders build their series from
  exactly the records whose delivery date, resource name, QSE and resource type equal the
  selections. \<^verbatim>\<open>create_graph2\<close> returns a chart whose plotted (supply, price) pairs
  are the pairs of the matching records, each as often as it occurs among them: no pair
  of another record is plotted and no matching record is left out. So does
  \<^verbatim>\<open>create_graph1\<close> when the hour endings of the matching records are from 1 to 24,
  as the data model has them; it raises, and plots nothing, when one of them is not.
\<close>

theorem C1_builders_plot_matching_records:
  fixes df :: "'v dataframe"
  shows "mset (plotted_points (create_graph2 df (Some d) (Some u) (Some g) (Some t)))
           = mset (map bid_point (filter (matches_selection d u g t) df))
       \<and> ((\<forall>r \<in> set df. matches_selection d u g t r \<longrightarrow> 1 \<le> Hour_Ending r \<and> Hour_Ending r \<le> 24) \<longrightarrow>
            (\<exists>fig. create_graph1 df (Some d) (Some u) (Some g) (Some t) = Inr fig
               \<and> mset (plotted_points fig) = mset (map bid_point (filter (matches_selection d u g t) df))))
       \<and> ((\<exists>r \<in> set df. matches_selection d u g t r \<and> \<not> (1 \<le> Hour_Ending r \<and> Hour_Ending r \<le> 24)) \<longrightarrow>
            create_graph1 df (Some d) (Some u) (Some g) (Some t) = Inl OutOfRange)"
proof (intro conjI impI)
  define rows where "rows = filter (matches_selection d u g t) df"
  have "plotted_points (create_graph2 df (Some d) (Some u) (Some g) (Some t))
      = concat (map (\<lambda>h. map bid_point (filter (\<lambda>r. Hour_Ending r = h) rows))
          (unique (map Hour_Ending rows)))"
    by (simp add: create_graph2_eq rows_def [symmetric] plotted_points_def Scatter_def comp_def
        zip_columns bid_point_def [abs_def])
  then show "mset (plotted_points (create_graph2 df (Some d) (Some u) (Some g) (Some t)))
           = mset (map bid_point (filter (matches_selection d u g t) df))"
    using points_of_groups [of "unique (map Hour_Ending rows)" rows]
    by (simp add: distinct_unique set_unique rows_def)
next
  define rows where "rows = filter (matches_selection d u g t) df"
  assume "\<forall>r \<in> set df. matches_selection d u g t r \<longrightarrow> 1 \<le> Hour_Ending r \<and> Hour_Ending r \<le> 24"
  then have "\<forall>r \<in> set rows. 1 \<le> Hour_Ending r \<and> Hour_Ending r \<le> 24"
    by (simp add: rows_def)
  then obtain fig where fig: "create_graph1 df (Some d) (Some u) (Some g) (Some t) = Inr fig"
    and "fig_data fig = map grid_trace (groupby_Hour_Ending rows)"
    by (simp add: create_graph1_eq rows_def [symmetric] Let_def)
  then have "plotted_points fig = plotted_points (fig\<lparr>fig_data := map grid_trace (groupby_Hour_Ending rows)\<rparr>)"
    by (simp add: plotted_points_def)
  then have "plotted_points fig = concat (map (\<lambda>h. map bid_point (filter (\<lambda>r. Hour_Ending r = h) rows))
       (sort (remdups (map Hour_Ending rows))))"
    by (simp only: graph1_points)
  then have "mset (plotted_points fig) = mset (map bid_point (filter (matches_selection d u g t) df))"
    using points_of_groups [of "sort (remdups (map Hour_Ending rows))" rows]
    by (simp add: rows_def)
  with fig show "\<exists>fig. create_graph1 df (Some d) (Some u) (Some g) (Some t) = Inr fig
      \<and> mset (plotted_points fig) = mset (map bid_point (filter (matches_selection d u g t) df))"
    by blast
next
  assume "\<exists>r \<in> set df. matches_selection d u g t r \<and> \<not> (1 \<le> Hour_Ending r \<and> Hour_Ending r \<le> 24)"
  then show "create_graph1 df (Some d) (Some u) (Some g) (Some t) = Inl OutOfRange"
    by (auto simp: create_graph1_eq Let_def)
qed

theorem C1_witness:
  "mset (plotted_points (create_graph2 example_df (Some ''D1'') (Some ''U1'') (Some ''Q1'') (Some ''GAS'')))
     = {#(10, 20), (11, 21), (13, 23)#}
   \<and> create_graph1 example_df (Some ''D1'') (Some ''U1'') (Some ''Q1'') (Some ''GAS'') = Inr example_grid
   \<and> mset (plotted_points example_grid) = {#(10, 20), (11, 21), (13, 23)#}
   \<and> create_graph1 late_df (Some ''D1'') (Some ''U1'') (Some ''Q1'') (Some ''GAS'') = Inl OutOfRange"
proof -
  have rows: "map bid_point (filter (matches_selection ''D1'' ''U1'' ''Q1'' ''GAS'') example_df)
      = [(10, 20), (11, 21), (13, 23)]"
    by code_simp
  have hours: "\<forall>r \<in> set example_df. matches_selection ''D1'' ''U1'' ''Q1'' ''GAS'' r
      \<longrightarrow> 1 \<le> Hour_Ending r \<and> Hour_Ending r \<le> 24"
    by (simp add: example_df_def bid_def matches_selection_def)
  have late: "\<exists>r \<in> set late_df. matches_selection ''D1'' ''U1'' ''Q1'' ''GAS'' r
      \<and> \<not> (1 \<le> Hour_Ending r \<and> Hour_Ending r \<le> 24)"
    by (simp add: late_df_def bid_def matches_selection_def)
  note here = C1_builders_plot_matching_records [of example_df "''D1''" "''U1''" "''Q1''" "''GAS''"]
  from here have "mset (plotted_points (create_graph2 example_df (Some ''D1'') (Some ''U1'') (Some ''Q1'') (Some ''GAS'')))
     = {#(10, 20), (11, 21), (13, 23)#}"
    by (simp only: rows) simp
  moreover from here hours obtain fig
    where "create_graph1 example_df (Some ''D1'') (Some ''U1'') (Some ''Q1'') (Some ''GAS'') = Inr fig"
      and "mset (plotted_points fig) = mset [(10, 20), (11, 21), (13, 23)]"
    unfolding rows by blast
  then have "mset (plotted_points example_grid) = {#(10, 20), (11, 21), (13, 23)#}"
    using create_graph1_example by simp
  moreover from C1_builders_plot_matching_records [of late_df "''D1''" "''U1''" "''Q1''" "''GAS''"] late
  have "create_graph1 late_df (Some ''D1'') (Some ''U1'') (Some ''Q1'') (Some ''GAS'') = Inl OutOfRange"
    by blast
  ultimately show ?thesis
    using create_graph1_example by simp
qed

section \<open>Missing selections\<close>

text \<open>
  C2: when at least one of the four selections is absent, each chart builder returns the
  empty chart, which has no data series, and neither raises.
\<close>

theorem C2_missing_selection_empty_chart:
  fixes df :: "'v dataframe"
  assumes "d = None \<or> u = None \<or> g = None \<or> t = None"
  shows "create_graph1 df d u g t = Inr go_Figure
       \<and> create_graph2 df d u g t = go_Figure
       \<and> fig_data (go_Figure :: 'v figure) = []"
  using assms by (auto simp: create_graph1_def create_graph2_def go_Figure_def)

theorem C2_witness:
  "create_graph1 example_df (Some ''D1'') None (Some ''Q1'') (Some ''GAS'') = Inr go_Figure
   \<and> create_graph2 example_df (Some ''D1'') None (Some ''Q1'') (Some ''GAS'') = go_Figure
   \<and> fig_data (go_Figure :: int figure) = []"
  using C2_missing_selection_empty_chart [of "Some ''D1''" None "Some ''Q1''" "Some ''GAS''" example_df]
  by simp

section \<open>Dispatching to a chart builder\<close>

text \<open>
  C3: \<^verbatim>\<open>display_graph\<close> returns the empty chart when no control has triggered,
  whatever the selections; the per-hour grid of the current selections when the most
  recently triggered control is \<^verbatim>\<open>btn-graph1\<close> and its click counter is positive; the
  combined overlay of the current selections when it is \<^verbatim>\<open>btn-graph2\<close> and its click
  counter is positive; and the empty chart in every other state.
\<close>

theorem C3_dispatcher:
  "display_graph df [] btn1 btn2 d u g t = Inr go_Figure
   \<and> (control_id p = ''btn-graph1'' \<and> 0 < btn1 \<longrightarrow>
        display_graph df (p # ps) btn1 btn2 d u g t = create_graph1 df d u g t)
   \<and> (control_id p = ''btn-graph2'' \<and> 0 < btn2 \<longrightarrow>
        display_graph df (p # ps) btn1 btn2 d u g t = Inr (create_graph2 df d u g t))
   \<and> (\<not> (control_id p = ''btn-graph1'' \<and> 0 < btn1) \<and> \<not> (control_id p = ''btn-graph2'' \<and> 0 < btn2) \<longrightarrow>
        display_graph df (p # ps) btn1 btn2 d u g t = Inr go_Figure)"
proof -
  obtain ws where "str_split CHR ''.'' (prop_id p) = control_id p # ws"
    unfolding control_id_def using str_split_head by blast
  then show ?thesis
    by (simp add: display_graph_def)
qed

theorem C3_witness:
  "display_graph example_df [\<lparr>prop_id = ''btn-graph1.n_clicks''\<rparr>] 1 0
       (Some ''D1'') (Some ''U1'') (Some ''Q1'') (Some ''GAS'')
     = create_graph1 example_df (Some ''D1'') (Some ''U1'') (Some ''Q1'') (Some ''GAS'')
   \<and> display_graph example_df [\<lparr>prop_id = ''btn-graph2.n_clicks''\<rparr>] 1 2
       (Some ''D1'') (Some ''U1'') (Some ''Q1'') (Some ''GAS'')
     = Inr (create_graph2 example_df (Some ''D1'') (Some ''U1'') (Some ''Q1'') (Some ''GAS''))
   \<and> display_graph example_df [\<lparr>prop_id = ''btn-graph1.n_clicks''\<rparr>] 0 0
       (Some ''D1'') (Some ''U1'') (Some ''Q1'') (Some ''GAS'') = Inr go_Figure
   \<and> display_graph example_df [\<lparr>prop_id = ''date_dropdown.value''\<rparr>] 1 1
       (Some ''D1'') (Some ''U1'') (Some ''Q1'') (Some ''GAS'') = Inr go_Figure"
  using C3_dispatcher [of example_df 1 0 "Some ''D1''" "Some ''U1''" "Some ''Q1''" "Some ''GAS''" "\<lparr>prop_id = ''btn-graph1.n_clicks''\<rparr>" "[]"]
    C3_dispatcher [of example_df 1 2 "Some ''D1''" "Some ''U1''" "Some ''Q1''" "Some ''GAS''" "\<lparr>prop_id = ''btn-graph2.n_clicks''\<rparr>" "[]"]
    C3_dispatcher [of example_df 0 0 "Some ''D1''" "Some ''U1''" "Some ''Q1''" "Some ''GAS''" "\<lparr>prop_id = ''btn-graph1.n_clicks''\<rparr>" "[]"]
    C3_dispatcher [of example_df 1 1 "Some ''D1''" "Some ''U1''" "Some ''Q1''" "Some ''GAS''" "\<lparr>prop_id = ''date_dropdown.value''\<rparr>" "[]"]
  by (simp add: control_id_def)

section \<open>The per-hour grid\<close>




section \<open>Options of the dependent dropdowns\<close>

text \<open>
  C5: with all upstream selections present, the values offered by a dropdown stage are
  the distinct values of the next column among the records matching the upstream
  selections, in source order of first appearance, each value once: the list of option
  values is the only list in that order. The label of an option is its value.
\<close>

theorem C5_options_in_first_appearance_order:
  fixes df :: "'v dataframe"
  shows "(first_appearance_order (map QSE (filter (\<lambda>r. Resource_Type r = t) df)) vs
            \<longleftrightarrow> vs = map opt_value (update_generator_dropdown df (Some t)))
       \<and> (first_appearance_order
            (map Resource_Name (filter (\<lambda>r. QSE r = g \<and> Resource_Type r = t) df)) vs
            \<longleftrightarrow> vs = map opt_value (update_unit_dropdown df (Some g) (Some t)))
       \<and> (first_appearance_order
            (map Delivery_Date
               (filter (\<lambda>r. Resource_Name r = u \<and> QSE r = g \<and> Resource_Type r = t) df)) vs
            \<longleftrightarrow> vs = map opt_value (update_date_dropdown df (Some u) (Some g) (Some t)))
       \<and> map opt_label (update_generator_dropdown df (Some t))
            = map opt_value (update_generator_dropdown df (Some t))
       \<and> map opt_label (update_unit_dropdown df (Some g) (Some t))
            = map opt_value (update_unit_dropdown df (Some g) (Some t))
       \<and> map opt_label (update_date_dropdown df (Some u) (Some g) (Some t))
            = map opt_value (update_date_dropdown df (Some u) (Some g) (Some t))"
  by (simp add: first_appearance_iff update_generator_dropdown_def update_unit_dropdown_def
      update_date_dropdown_def comp_def)

theorem C5_witness:
  "first_appearance_order (map QSE (filter (\<lambda>r. Resource_Type r = ''GAS'') example_df)) [''Q1'', ''Q2'']
   \<and> update_generator_dropdown example_df (Some ''GAS'')
        = [\<lparr>opt_label = ''Q1'', opt_value = ''Q1''\<rparr>, \<lparr>opt_label = ''Q2'', opt_value = ''Q2''\<rparr>]
   \<and> first_appearance_order
        (map Resource_Name (filter (\<lambda>r. QSE r = ''Q1'' \<and> Resource_Type r = ''GAS'') example_df))
        [''U1'', ''U2'']
   \<and> first_appearance_order
        (map Delivery_Date
           (filter (\<lambda>r. Resource_Name r = ''U1'' \<and> QSE r = ''Q1'' \<and> Resource_Type r = ''GAS'') example_df))
        [''D1'']"
proof -
  have gen: "update_generator_dropdown example_df (Some ''GAS'')
        = [\<lparr>opt_label = ''Q1'', opt_value = ''Q1''\<rparr>, \<lparr>opt_label = ''Q2'', opt_value = ''Q2''\<rparr>]"
    and unit: "map opt_value (update_unit_dropdown example_df (Some ''Q1'') (Some ''GAS'')) = [''U1'', ''U2'']"
    and date: "map opt_value (update_date_dropdown example_df (Some ''U1'') (Some ''Q1'') (Some ''GAS'')) = [''D1'']"
    by code_simp+
  from gen have gen': "map opt_value (update_generator_dropdown example_df (Some ''GAS'')) = [''Q1'', ''Q2'']"
    by simp
  show ?thesis
    using C5_options_in_first_appearance_order [of "''GAS''" example_df "[''Q1'', ''Q2'']"]
      C5_options_in_first_appearance_order [of "''GAS''" example_df "[''U1'', ''U2'']" "''Q1''"]
      C5_options_in_first_appearance_order [of "''GAS''" example_df "[''D1'']" "''Q1''" "''U1''"]
      gen gen' unit date
    by presburger
qed

text \<open>
  C6: a dropdown stage returns no options as soon as any selection upstream of it is
  absent, not only the one its guard tests: the generator stage without a resource type,
  the unit stage without a generator or a resource type, the date stage without a unit,
  a generator or a resource type.
\<close>

theorem C6_missing_upstream_no_options:
  "update_generator_dropdown df None = []
   \<and> (g = None \<or> t = None \<longrightarrow> update_unit_dropdown df g t = [])
   \<and> (u = None \<or> g = None \<or> t = None \<longrightarrow> update_date_dropdown df u g t = [])"
  by (auto simp: update_generator_dropdown_def update_unit_dropdown_def update_date_dropdown_def)

theorem C6_witness:
  "update_generator_dropdown example_df None = []
   \<and> update_unit_dropdown example_df (Some ''Q1'') None = []
   \<and> update_date_dropdown example_df (Some ''U1'') None (Some ''GAS'') = []"
  using C6_missing_upstream_no_options [of example_df "Some ''Q1''" None "Some ''U1''"]
    C6_missing_upstream_no_options [of example_df None "Some ''GAS''" "Some ''U1''"]
  by simp

section \<open>The combined overlay\<close>

text \<open>
  C7: with all four selections present, the chart of \<^verbatim>\<open>create_graph2\<close> has exactly
  one series named after each hour ending that occurs among the matching records and
  none named after any other hour; every series is drawn as markers+lines, belongs to
  an hour of a matching record and carries the supply and price values of the matching
  records of that hour; the number of series is the number of distinct hours; the
  legend is shown.
\<close>

theorem C7_one_series_per_hour:
  fixes df :: "'v dataframe" and d u g t :: string
  defines "fig \<equiv> create_graph2 df (Some d) (Some u) (Some g) (Some t)"
  shows "(\<forall>h. length (filter (\<lambda>tr. trace_name tr = hour_label h) (fig_data fig))
              = (if \<exists>r \<in> set df. matches_selection d u g t r \<and> Hour_Ending r = h then 1 else 0))
       \<and> (\<forall>tr \<in> set (fig_data fig).
             trace_mode tr = ''markers+lines''
           \<and> (\<exists>r \<in> set df. matches_selection d u g t r \<and> trace_name tr = hour_label (Hour_Ending r)
                \<and> trace_x tr = map Supply_Bid_Value
                     (filter (\<lambda>q. matches_selection d u g t q \<and> Hour_Ending q = Hour_Ending r) df)
                \<and> trace_y tr = map Price_Bid_Value
                     (filter (\<lambda>q. matches_selection d u g t q \<and> Hour_Ending q = Hour_Ending r) df)))
       \<and> length (fig_data fig) = card (Hour_Ending ` {r \<in> set df. matches_selection d u g t r})
       \<and> showlegend fig = Some True"
proof -
  define rows where "rows = filter (matches_selection d u g t) df"
  define hs where "hs = unique (map Hour_Ending rows)"
  define mk where "mk = (\<lambda>hour. Scatter (map Supply_Bid_Value (filter (\<lambda>r. Hour_Ending r = hour) rows))
                           (map Price_Bid_Value (filter (\<lambda>r. Hour_Ending r = hour) rows))
                           ''markers+lines'' None (hour_label hour))"
  have data: "fig_data fig = map mk hs" and legend: "showlegend fig = Some True"
    by (simp_all add: fig_def create_graph2_eq rows_def [symmetric] hs_def mk_def)
  have hs: "distinct hs" "set hs = Hour_Ending ` set rows"
    by (simp_all add: hs_def distinct_unique set_unique)
  have name: "trace_name (mk k) = hour_label k" for k
    by (simp add: mk_def Scatter_def)
  have member: "h \<in> set hs \<longleftrightarrow> (\<exists>r \<in> set df. matches_selection d u g t r \<and> Hour_Ending r = h)" for h
    by (auto simp: hs rows_def)
  have one: "length (filter (\<lambda>tr. trace_name tr = hour_label h) (fig_data fig))
              = (if \<exists>r \<in> set df. matches_selection d u g t r \<and> Hour_Ending r = h then 1 else 0)" for h
    unfolding data using count_label [of mk, OF name hs(1), of h] by (simp only: member)
  have each: "trace_mode tr = ''markers+lines''
           \<and> (\<exists>r \<in> set df. matches_selection d u g t r \<and> trace_name tr = hour_label (Hour_Ending r)
                \<and> trace_x tr = map Supply_Bid_Value
                     (filter (\<lambda>q. matches_selection d u g t q \<and> Hour_Ending q = Hour_Ending r) df)
                \<and> trace_y tr = map Price_Bid_Value
                     (filter (\<lambda>q. matches_selection d u g t q \<and> Hour_Ending q = Hour_Ending r) df))"
    if "tr \<in> set (fig_data fig)" for tr
  proof -
    from that obtain h where "h \<in> set hs" and tr: "tr = mk h"
      unfolding data by auto
    then obtain r where r: "r \<in> set df" "matches_selection d u g t r" "Hour_Ending r = h"
      unfolding member by blast
    have "filter (\<lambda>r. Hour_Ending r = h) rows
        = filter (\<lambda>q. matches_selection d u g t q \<and> Hour_Ending q = Hour_Ending r) df"
      by (simp add: rows_def r(3) conj_commute)
    with r show ?thesis
      by (auto simp: tr mk_def Scatter_def)
  qed
  have "length (fig_data fig) = card (set hs)"
    using hs(1) by (simp add: data distinct_card)
  also have "set hs = Hour_Ending ` {r \<in> set df. matches_selection d u g t r}"
    by (simp add: hs rows_def)
  finally have count: "length (fig_data fig) = card (Hour_Ending ` {r \<in> set df. matches_selection d u g t r})" .
  from one each count legend show ?thesis
    by blast
qed

theorem C7_witness:
  "length (filter (\<lambda>tr. trace_name tr = hour_label 7)
      (fig_data (create_graph2 example_df (Some ''D1'') (Some ''U1'') (Some ''Q1'') (Some ''GAS'')))) = 1
   \<and> length (filter (\<lambda>tr. trace_name tr = hour_label 3)
      (fig_data (create_graph2 example_df (Some ''D1'') (Some ''U1'') (Some ''Q1'') (Some ''GAS'')))) = 0
   \<and> map trace_mode (fig_data (create_graph2 example_df (Some ''D1'') (Some ''U1'') (Some ''Q1'') (Some ''GAS'')))
       = [''markers+lines'', ''markers+lines'']
   \<and> showlegend (create_graph2 example_df (Some ''D1'') (Some ''U1'') (Some ''Q1'') (Some ''GAS'')) = Some True"
proof -
  have seven: "\<exists>r \<in> set example_df. matches_selection ''D1'' ''U1'' ''Q1'' ''GAS'' r \<and> Hour_Ending r = 7"
    and three: "\<not> (\<exists>r \<in> set example_df. matches_selection ''D1'' ''U1'' ''Q1'' ''GAS'' r \<and> Hour_Ending r = 3)"
    by (simp_all add: example_df_def bid_def matches_selection_def)
  have modes: "map trace_mode (fig_data (create_graph2 example_df (Some ''D1'') (Some ''U1'') (Some ''Q1'') (Some ''GAS'')))
       = [''markers+lines'', ''markers+lines'']"
    by code_simp
  from C7_one_series_per_hour [where df = example_df and d = "''D1''" and u = "''U1''" and g = "''Q1''" and t = "''GAS''"] seven three modes
  show ?thesis
    by presburger
qed

text \<open>
  C8, as amended: the series of \<^verbatim>\<open>create_graph2\<close> follow the order in which their
  hour endings first appear among the matching records, in file order; they are in
  ascending order of hour ending whenever the matching records are listed by
  nondecreasing hour ending.
\<close>

theorem C8_series_in_first_appearance_order:
  fixes df :: "'v dataframe" and d u g t :: string
  defines "fig \<equiv> create_graph2 df (Some d) (Some u) (Some g) (Some t)"
    and "hours \<equiv> map Hour_Ending (filter (matches_selection d u g t) df)"
  shows "map trace_name (fig_data fig) = map hour_label (unique hours)
       \<and> first_appearance_order hours (unique hours)
       \<and> (sorted hours \<longrightarrow> sorted_wrt (<) (unique hours))"
  by (simp add: fig_def hours_def create_graph2_eq Scatter_def comp_def unique_first_appearance sorted_unique)

theorem C8_witness:
  "map trace_name (fig_data (create_graph2 late_df (Some ''D1'') (Some ''U1'') (Some ''Q1'') (Some ''GAS'')))
     = map hour_label [1, 25]
   \<and> first_appearance_order [1, 25 :: int] [1, 25]
   \<and> sorted_wrt (<) [1, 25 :: int]"
proof -
  have hours: "map Hour_Ending (filter (matches_selection ''D1'' ''U1'' ''Q1'' ''GAS'') late_df) = [1, 25]"
    by code_simp
  have u: "unique [1, 25 :: int] = [1, 25]"
    by simp
  from C8_series_in_first_appearance_order [where df = late_df and d = "''D1''" and u = "''U1''" and g = "''Q1''" and t = "''GAS''"]
  show ?thesis
    unfolding hours u by simp
qed

text \<open>
  As stated, C8 asks for ascending hours on every dataset. Over \<open>example_df\<close>, where a
  bid for hour 7 precedes the bid for hour 1, the series for hour 7 comes first.
\<close>

theorem C8_descending_counterexample:
  "map trace_name (fig_data (create_graph2 example_df (Some ''D1'') (Some ''U1'') (Some ''Q1'') (Some ''GAS'')))
     = [hour_label 7, hour_label 1]
   \<and> \<not> sorted_wrt (<) [7, 1 :: int]"
  by code_simp

section \<open>Determinism\<close>

text \<open>
  C9, as amended. Take a heap that holds the dataset at the address of \<^verbatim>\<open>df\<close>. No
  call of a chart builder, a dropdown update or the dispatcher changes an object that
  was on the heap before the call, the dataset included: the heap after the call is the
  heap before it, followed by the objects the call has allocated. The output of a chart
  builder or of a dropdown update is determined by its arguments and the rows of the
  dataset, so two calls with the same arguments over the same dataset return the same
  output, wherever the dataset lies and whatever else the two heaps hold. The output of
  \<^verbatim>\<open>display_graph\<close> is determined by its arguments, the rows of the dataset and the
  callback context; two calls with the same arguments over the same dataset return the
  same output when the most recently triggered control is the same.
\<close>

theorem C9_outputs_determined:
  fixes h h' :: "'v heap"
  assumes "lookup h df = Some (Frame frame)" and "lookup h' df' = Some (Frame frame)"
  shows "take (length h) (snd (hp_create_graph1 df d u g t h)) = h
       \<and> take (length h) (snd (hp_create_graph2 df d u g t h)) = h
       \<and> take (length h) (snd (hp_update_generator_dropdown df t h)) = h
       \<and> take (length h) (snd (hp_update_unit_dropdown df g t h)) = h
       \<and> take (length h) (snd (hp_update_date_dropdown df u g t h)) = h
       \<and> take (length h) (snd (hp_display_graph df ctx btn1 btn2 d u g t h)) = h
       \<and> chart_of (hp_create_graph1 df d u g t h) = raised (create_graph1 frame d u g t)
       \<and> chart_of (hp_create_graph2 df d u g t h) = Inr (create_graph2 frame d u g t)
       \<and> fst (hp_update_generator_dropdown df t h) = Inr (update_generator_dropdown frame t)
       \<and> fst (hp_update_unit_dropdown df g t h) = Inr (update_unit_dropdown frame g t)
       \<and> fst (hp_update_date_dropdown df u g t h) = Inr (update_date_dropdown frame u g t)
       \<and> chart_of (hp_display_graph df ctx btn1 btn2 d u g t h)
            = raised (display_graph frame ctx btn1 btn2 d u g t)
       \<and> chart_of (hp_create_graph1 df d u g t h) = chart_of (hp_create_graph1 df' d u g t h')
       \<and> chart_of (hp_create_graph2 df d u g t h) = chart_of (hp_create_graph2 df' d u g t h')
       \<and> fst (hp_update_generator_dropdown df t h) = fst (hp_update_generator_dropdown df' t h')
       \<and> fst (hp_update_unit_dropdown df g t h) = fst (hp_update_unit_dropdown df' g t h')
       \<and> fst (hp_update_date_dropdown df u g t h) = fst (hp_update_date_dropdown df' u g t h')
       \<and> (last_triggered ctx = last_triggered ctx' \<longrightarrow>
            chart_of (hp_display_graph df ctx btn1 btn2 d u g t h)
              = chart_of (hp_display_graph df' ctx' btn1 btn2 d u g t h'))"
proof -
  note run = hp_create_graph1_run hp_create_graph2_run hp_dropdowns_run hp_display_graph_run
  have kept: "take (length h) (snd (hp_create_graph1 df d u g t h)) = h"
      "take (length h) (snd (hp_create_graph2 df d u g t h)) = h"
      "take (length h) (snd (hp_update_generator_dropdown df t h)) = h"
      "take (length h) (snd (hp_update_unit_dropdown df g t h)) = h"
      "take (length h) (snd (hp_update_date_dropdown df u g t h)) = h"
      "take (length h) (snd (hp_display_graph df ctx btn1 btn2 d u g t h)) = h"
    by (rule take_extended, rule run [OF assms(1)])+
  have out: "chart_of (hp_create_graph1 df d u g t h) = raised (create_graph1 frame d u g t)"
      "chart_of (hp_create_graph2 df d u g t h) = Inr (create_graph2 frame d u g t)"
      "fst (hp_update_generator_dropdown df t h) = Inr (update_generator_dropdown frame t)"
      "fst (hp_update_unit_dropdown df g t h) = Inr (update_unit_dropdown frame g t)"
      "fst (hp_update_date_dropdown df u g t h) = Inr (update_date_dropdown frame u g t)"
      "chart_of (hp_display_graph df ctx btn1 btn2 d u g t h)
            = raised (display_graph frame ctx btn1 btn2 d u g t)"
    by (rule run [OF assms(1)])+
  have out': "chart_of (hp_create_graph1 df' d u g t h') = raised (create_graph1 frame d u g t)"
      "chart_of (hp_create_graph2 df' d u g t h') = Inr (create_graph2 frame d u g t)"
      "fst (hp_update_generator_dropdown df' t h') = Inr (update_generator_dropdown frame t)"
      "fst (hp_update_unit_dropdown df' g t h') = Inr (update_unit_dropdown frame g t)"
      "fst (hp_update_date_dropdown df' u g t h') = Inr (update_date_dropdown frame u g t)"
      "chart_of (hp_display_graph df' ctx' btn1 btn2 d u g t h')
            = raised (display_graph frame ctx' btn1 btn2 d u g t)"
    by (rule run [OF assms(2)])+
  have same: "last_triggered ctx = last_triggered ctx' \<longrightarrow>
            chart_of (hp_display_graph df ctx btn1 btn2 d u g t h)
              = chart_of (hp_display_graph df' ctx' btn1 btn2 d u g t h')"
    using display_graph_context [of ctx ctx' frame btn1 btn2 d u g t]
    by (simp only: out out') simp
  from kept out same show ?thesis
    by (simp only: out')
qed

theorem C9_witness:
  "take (length example_heap)
       (snd (hp_create_graph1 0 (Some ''D1'') (Some ''U1'') (Some ''Q1'') (Some ''GAS'') example_heap))
     = example_heap
   \<and> chart_of (hp_create_graph1 0 (Some ''D1'') (Some ''U1'') (Some ''Q1'') (Some ''GAS'') example_heap)
     = Inr example_grid
   \<and> chart_of (hp_create_graph1 2 (Some ''D1'') (Some ''U1'') (Some ''Q1'') (Some ''GAS'') example_heap2)
     = Inr example_grid
   \<and> chart_of (hp_display_graph 0 [\<lparr>prop_id = ''btn-graph1.n_clicks''\<rparr>] 1 0
        (Some ''D1'') (Some ''U1'') (Some ''Q1'') (Some ''GAS'') example_heap)
     = chart_of (hp_display_graph 2
        [\<lparr>prop_id = ''btn-graph1.n_clicks''\<rparr>, \<lparr>prop_id = ''date_dropdown.value''\<rparr>] 1 0
        (Some ''D1'') (Some ''U1'') (Some ''Q1'') (Some ''GAS'') example_heap2)"
proof -
  have at: "lookup example_heap 0 = Some (Frame example_df)"
      "lookup example_heap2 2 = Some (Frame example_df)"
    by (simp_all add: lookup_def example_heap_def example_heap2_def)
  have ctx: "last_triggered [\<lparr>prop_id = ''btn-graph1.n_clicks''\<rparr>]
      = last_triggered [\<lparr>prop_id = ''btn-graph1.n_clicks''\<rparr>, \<lparr>prop_id = ''date_dropdown.value''\<rparr>]"
    by (simp add: last_triggered_def control_id_def)
  have grid: "raised (create_graph1 example_df (Some ''D1'') (Some ''U1'') (Some ''Q1'') (Some ''GAS''))
      = Inr example_grid"
    by (simp add: create_graph1_example raised_def)
  from C9_outputs_determined [OF at, of "Some ''D1''" "Some ''U1''" "Some ''Q1''" "Some ''GAS''"
      "[\<lparr>prop_id = ''btn-graph1.n_clicks''\<rparr>]" 1 0
      "[\<lparr>prop_id = ''btn-graph1.n_clicks''\<rparr>, \<lparr>prop_id = ''date_dropdown.value''\<rparr>]"] ctx grid
  show ?thesis
    by metis
qed

text \<open>
  As stated, C9 takes the arguments and the dataset to determine the output of the
  dispatcher as well. With the same six arguments over the same dataset,
  \<^verbatim>\<open>display_graph\<close> returns the per-hour grid when the first button triggered the
  call and the empty chart when the date dropdown did.
\<close>

theorem C9_dispatcher_counterexample:
  "display_graph example_df [\<lparr>prop_id = ''btn-graph1.n_clicks''\<rparr>] 1 0
       (Some ''D1'') (Some ''U1'') (Some ''Q1'') (Some ''GAS'')
   \<noteq> display_graph example_df [\<lparr>prop_id = ''date_dropdown.value''\<rparr>] 1 0
       (Some ''D1'') (Some ''U1'') (Some ''Q1'') (Some ''GAS'')"
  by code_simp

section \<open>Cells stay inside the grid\<close>

text \<open>
  C10: when every matching record has an hour ending from 1 to 24, every cell computed
  by \<^verbatim>\<open>create_graph1\<close> has a row from 1 to 4 and a column from 1 to 6, and the
  builder returns a chart: no \<^verbatim>\<open>add_trace\<close> raises. Outside that range the guarantee
  fails: a matching record with another hour ending makes the builder raise, and hour 25
  gives row 5.
\<close>

theorem C10_cells_inside_grid:
  fixes df :: "'v dataframe"
  shows "((\<forall>r \<in> set df. matches_selection d u g t r \<longrightarrow> 1 \<le> Hour_Ending r \<and> Hour_Ending r \<le> 24) \<longrightarrow>
            (\<forall>r \<in> set df. matches_selection d u g t r \<longrightarrow>
                1 \<le> hour_row (Hour_Ending r) \<and> hour_row (Hour_Ending r) \<le> 4
              \<and> 1 \<le> hour_col (Hour_Ending r) \<and> hour_col (Hour_Ending r) \<le> 6)
          \<and> (\<exists>fig. create_graph1 df (Some d) (Some u) (Some g) (Some t) = Inr fig))
       \<and> ((\<exists>r \<in> set df. matches_selection d u g t r \<and> \<not> (1 \<le> Hour_Ending r \<and> Hour_Ending r \<le> 24)) \<longrightarrow>
            create_graph1 df (Some d) (Some u) (Some g) (Some t) = Inl OutOfRange)
       \<and> hour_row 25 = 5"
proof -
  have "hour_row 25 = 5"
    by (simp add: hour_row_def)
  then show ?thesis
    using cell_in_grid by (auto simp: create_graph1_eq Let_def)
qed

theorem C10_witness:
  "1 \<le> hour_row 7 \<and> hour_row 7 \<le> 4 \<and> 1 \<le> hour_col 7 \<and> hour_col 7 \<le> 6
   \<and> (\<exists>fig. create_graph1 example_df (Some ''D1'') (Some ''U1'') (Some ''Q1'') (Some ''GAS'') = Inr fig)
   \<and> create_graph1 late_df (Some ''D1'') (Some ''U1'') (Some ''Q1'') (Some ''GAS'') = Inl OutOfRange
   \<and> hour_row 25 = 5"
proof -
  have all: "\<forall>r \<in> set example_df. matches_selection ''D1'' ''U1'' ''Q1'' ''GAS'' r
      \<longrightarrow> 1 \<le> Hour_Ending r \<and> Hour_Ending r \<le> 24"
    by (simp add: example_df_def bid_def matches_selection_def)
  have first: "bid ''D1'' ''U1'' ''GAS'' ''Q1'' 7 10 20 \<in> set example_df"
      "matches_selection ''D1'' ''U1'' ''Q1'' ''GAS'' (bid ''D1'' ''U1'' ''GAS'' ''Q1'' 7 10 20)"
      "Hour_Ending (bid ''D1'' ''U1'' ''GAS'' ''Q1'' 7 10 20) = 7"
    by (simp_all add: example_df_def bid_def matches_selection_def)
  have late: "\<exists>r \<in> set late_df. matches_selection ''D1'' ''U1'' ''Q1'' ''GAS'' r
      \<and> \<not> (1 \<le> Hour_Ending r \<and> Hour_Ending r \<le> 24)"
    by (simp add: late_df_def bid_def matches_selection_def)
  from C10_cells_inside_grid [of example_df "''D1''" "''U1''" "''Q1''" "''GAS''"] all first
  have "1 \<le> hour_row 7 \<and> hour_row 7 \<le> 4 \<and> 1 \<le> hour_col 7 \<and> hour_col 7 \<le> 6"
    and "\<exists>fig. create_graph1 example_df (Some ''D1'') (Some ''U1'') (Some ''Q1'') (Some ''GAS'') = Inr fig"
    by metis+
  moreover from C10_cells_inside_grid [of late_df "''D1''" "''U1''" "''Q1''" "''GAS''"] late
  have "create_graph1 late_df (Some ''D1'') (Some ''U1'') (Some ''Q1'') (Some ''GAS'') = Inl OutOfRange"
      and "hour_row 25 = 5"
    by blast+
  ultimately show ?thesis by blast
qed

end
